theory Spec2Isabelle
  imports Main "HOL-Library.Word"
begin

section \<open>A two-pass assembler for a 10-bit machine: shallow embedding\<close>

text \<open>
  The C sources are translated function by function. Conventions of the embedding:
  \<^item> a C string is a \<open>string\<close> (it holds no NUL byte); a \<open>char *\<close> that may be \<open>NULL\<close>
    is a \<open>string option\<close>;
  \<^item> a C \<open>int\<close> is an \<open>int\<close>; the counters of the program advance by one and stay
    far below \<open>2^31\<close>. Where the source adds to a value of any size or takes an
    absolute value (\<open>index_update\<close>, \<open>abs\<close> in \<open>int_to_special_base4\<close>) the 32-bit
    wrap-around is written out (\<open>wrap_int\<close>). An \<open>unsigned int\<close> field is a
    \<open>32 word\<close>, and storing an \<open>int\<close> into it is \<open>word_of_int\<close>;
  \<^item> the growable tables (\<open>errortable\<close>, \<open>labeltable\<close>, \<open>extable\<close>, \<open>datatable\<close>)
    are lists with the counter (\<open>ec\<close>, \<open>lac\<close>, \<open>exc\<close>, \<open>dc\<close>) being the length; the
    instruction table is a store from index to word together with the counter \<open>ic\<close>,
    because the second pass writes at an index of its own (\<open>ic2\<close>);
  \<^item> \<open>malloc\<close>, \<open>calloc\<close> and \<open>realloc\<close> are taken to succeed, so the \<open>EXIT\<close> returns
    that only an allocation failure triggers have no branch in the model;
  \<^item> a call the C standard leaves undefined (a \<open>NULL\<close> passed to \<open>strcmp\<close>, \<open>strtol\<close>,
    \<open>strlen\<close> or \<open>memmove\<close>) is the result \<open>Undefined\<close>.
\<close>

subsection \<open>C library primitives\<close>

text \<open>
  The character classes of \<open><ctype.h>\<close> in the C locale, on the byte value of the
  character. \<open>char_at s i\<close> is the read \<open>s[i]\<close> of a C string: the terminating NUL at
  \<open>i = strlen(s)\<close> (the source never reads further).
\<close>

definition char_code :: "char \<Rightarrow> nat" where
  "char_code c = of_char c"

definition isspace_c :: "char \<Rightarrow> bool" where
  "isspace_c c = (char_code c = 32 \<or> (9 \<le> char_code c \<and> char_code c \<le> 13))"

definition isdigit_c :: "char \<Rightarrow> bool" where
  "isdigit_c c = (48 \<le> char_code c \<and> char_code c \<le> 57)"

definition isalpha_c :: "char \<Rightarrow> bool" where
  "isalpha_c c = ((65 \<le> char_code c \<and> char_code c \<le> 90) \<or> (97 \<le> char_code c \<and> char_code c \<le> 122))"

definition isalnum_c :: "char \<Rightarrow> bool" where
  "isalnum_c c = (isalpha_c c \<or> isdigit_c c)"

definition char_at :: "string \<Rightarrow> nat \<Rightarrow> char" where
  "char_at s i = (if i < length s then s ! i else CHR 0x00)"

text \<open>
  \<open>strtok\<close>: leading delimiters are skipped; with nothing left the result is \<open>NULL\<close>;
  otherwise the token runs to the next delimiter, which is overwritten by NUL, and the
  function remembers the position after it. The second component is the text at that
  remembered position, so \<open>strtok(NULL, d)\<close> is \<open>strtok\<close> of it. \<open>strtok_buffer\<close> is what
  the scanned buffer reads as a C string after the call (cut at the overwritten
  delimiter).
\<close>

definition strtok :: "string \<Rightarrow> string \<Rightarrow> string option \<times> string" where
  "strtok s delims =
     (let s1 = dropWhile (\<lambda>c. c \<in> set delims) s
      in if s1 = [] then (None, [])
         else (Some (takeWhile (\<lambda>c. c \<notin> set delims) s1),
               drop 1 (dropWhile (\<lambda>c. c \<notin> set delims) s1)))"

definition strtok_buffer :: "string \<Rightarrow> string \<Rightarrow> string" where
  "strtok_buffer s delims =
     takeWhile (\<lambda>c. c \<in> set delims) s
       @ takeWhile (\<lambda>c. c \<notin> set delims) (dropWhile (\<lambda>c. c \<in> set delims) s)"

text \<open>
  \<open>strtol(s, &endptr, 10)\<close> followed by the assignment of the \<open>long\<close> to an \<open>int\<close>:
  white space, an optional sign, decimal digits. The result is the value and the text at
  \<open>endptr\<close>; without digits \<open>endptr\<close> is \<open>s\<close> itself and the value 0. The \<open>long\<close> is
  64 bits wide and saturates; the conversion to \<open>int\<close> keeps the low 32 bits.
\<close>

definition digit_value :: "char \<Rightarrow> int" where
  "digit_value c = int (char_code c) - 48"

definition decimal_value :: "string \<Rightarrow> int" where
  "decimal_value ds = foldl (\<lambda>acc c. 10 * acc + digit_value c) 0 ds"

definition long_to_int :: "int \<Rightarrow> int" where
  "long_to_int v = (v + 2 ^ 31) mod 2 ^ 32 - 2 ^ 31"

text \<open>
  Arithmetic on an \<open>int\<close>: \<open>wrap_int\<close> is the 32-bit two's-complement value of a
  result, the same for every result between \<open>INT_MIN\<close> and \<open>INT_MAX\<close>. \<open>abs\<close> negates
  a negative argument, so that \<open>abs(INT_MIN)\<close> is \<open>INT_MIN\<close> again.
\<close>

definition wrap_int :: "int \<Rightarrow> int" where
  "wrap_int v = (v + 2 ^ 31) mod 2 ^ 32 - 2 ^ 31"

definition abs_c :: "int \<Rightarrow> int" where
  "abs_c n = (if n < 0 then wrap_int (- n) else n)"

definition strtol :: "string \<Rightarrow> int \<times> string" where
  "strtol s =
     (let s1 = dropWhile isspace_c s;
          neg = (s1 \<noteq> [] \<and> hd s1 = CHR ''-'');
          s2 = (if s1 \<noteq> [] \<and> (hd s1 = CHR ''-'' \<or> hd s1 = CHR ''+'') then tl s1 else s1);
          ds = takeWhile isdigit_c s2;
          v = (if neg then - decimal_value ds else decimal_value ds)
      in if ds = [] then (0, s)
         else (long_to_int (max (- (2 ^ 63)) (min (2 ^ 63 - 1) v)), dropWhile isdigit_c s2))"

definition atoi :: "string \<Rightarrow> int" where
  "atoi s = fst (strtol s)"

text \<open>The helpers of directive.c that only read a string.\<close>

definition only_spaces_and_tabs :: "string \<Rightarrow> bool" where
  "only_spaces_and_tabs str = list_all isspace_c str"

definition is_blank :: "char \<Rightarrow> bool" where
  "is_blank c = (c = CHR '' '' \<or> c = CHR 0x09)"

definition begin_of_string :: "string \<Rightarrow> nat" where
  "begin_of_string str =
     (if only_spaces_and_tabs str then 0 else length (takeWhile is_blank str))"

definition end_of_string :: "string \<Rightarrow> nat" where
  "end_of_string str =
     (if only_spaces_and_tabs str then 0 else length str - length (takeWhile is_blank (rev str)))"

text \<open>
  \<open>string_without_first_word\<close> of code.c: the text after the first word and the
  delimiters that follow it, \<open>NULL\<close> when nothing is left.
\<close>

definition string_without_first_word :: "string \<Rightarrow> string \<Rightarrow> string option" where
  "string_without_first_word str delims =
     (let p = dropWhile (\<lambda>c. c \<in> set delims) str;
          len = length (takeWhile (\<lambda>c. c \<notin> set delims) p)
      in if len = length p then None
         else (let rest = dropWhile (\<lambda>c. c \<in> set delims) (drop len p)
               in if rest \<noteq> [] then Some rest else None))"

definition is_label :: "string option \<Rightarrow> bool" where
  "is_label str = (case str of None \<Rightarrow> False | Some s \<Rightarrow> s \<noteq> [] \<and> last s = CHR '':'')"

subsection \<open>Constants and tables (data.h, code.h, instruction.h, second_pass.h)\<close>

definition MEMORY_START :: int where "MEMORY_START = 100"
definition MAX_SIZE_LABEL :: nat where "MAX_SIZE_LABEL = 30"
definition MAX_SIZE_MASAGE :: nat where "MAX_SIZE_MASAGE = 200"
definition MAX_VAL :: int where "MAX_VAL = 511"
definition MIN_VAL :: int where "MIN_VAL = - 512"

text \<open>Line kinds of code.h; they are also what the \<open>type\<close> and \<open>en\<close> fields of a label hold.\<close>

definition INSTRUCTION :: int where "INSTRUCTION = 0"
definition DIRECTIVE :: int where "DIRECTIVE = 1"
definition ENTRY :: int where "ENTRY = 3"
definition EXTERN :: int where "EXTERN = 4"

text \<open>
  Addressing modes and relocation tags of instruction.h. \<open>MATRIX\<close> and \<open>REGISTER\<close> are
  the decimal numbers ten and eleven; \<open>IMMEDIATE\<close> and \<open>DIRECT\<close> are the octal literals
  \<open>00\<close> and \<open>01\<close>.
\<close>

definition IMMEDIATE :: int where "IMMEDIATE = 0"
definition DIRECT :: int where "DIRECT = 1"
definition MATRIX :: int where "MATRIX = 10"
definition REGISTER :: int where "REGISTER = 11"
definition NO_OPERAND :: int where "NO_OPERAND = - 1"
definition NO_KNEWN :: int where "NO_KNEWN = - 4"
definition ABSOLUTE :: int where "ABSOLUTE = 0"
definition EXTERNAL :: int where "EXTERNAL = 1"
definition RELOCATABLE :: int where "RELOCATABLE = 2"

text \<open>\<open>enum command\<close>, in the order of its declaration.\<close>

definition MOV :: int where "MOV = 0"
definition CMP :: int where "CMP = 1"
definition ADD :: int where "ADD = 2"
definition SUB :: int where "SUB = 3"
definition LEA :: int where "LEA = 4"
definition CLR :: int where "CLR = 5"
definition NOT :: int where "NOT = 6"
definition INC :: int where "INC = 7"
definition DEC :: int where "DEC = 8"
definition JMP :: int where "JMP = 9"
definition BNE :: int where "BNE = 10"
definition JSR :: int where "JSR = 11"
definition RED :: int where "RED = 12"
definition PRN :: int where "PRN = 13"
definition RTS :: int where "RTS = 14"
definition STOP :: int where "STOP = 15"

datatype RecordType = RECORD_TYPE_COMMAND | RECORD_TYPE_ADDRESS | RECORD_TYPE_REGISTER

text \<open>
  \<open>struct instructionsMemory\<close>: the tag and the member of the union it selects. All
  fields are \<open>unsigned int\<close>.
\<close>

datatype instructionsMemory =
    Command (opcode: "32 word") (command_operand1: "32 word") (command_operand2: "32 word")
      (command_ARE: "32 word")
  | Address (address: "32 word") (addr_ARE: "32 word")
  | Register (reg_operand1: "32 word") (reg_operand2: "32 word") (reg_ARE: "32 word")

record labelMemory =
  name :: string
  type :: int
  index' :: int
  en :: int

record error =
  error :: string
  line :: int

record external =
  ex_name :: string
  ex_index :: int

text \<open>
  The tables of one input file. \<open>ic\<close> counts the words of \<open>instable\<close>; the other counters
  of the source are the lengths of the lists: \<open>dc\<close>, \<open>ec\<close>, \<open>lac\<close> and \<open>exc\<close>.
\<close>

record tables =
  instable :: "int \<Rightarrow> instructionsMemory"
  ic :: int
  datatable :: "32 word list"
  errortable :: "error list"
  labeltable :: "labelMemory list"
  extable :: "external list"

definition dc :: "tables \<Rightarrow> int" where "dc t = int (length (datatable t))"
definition ec :: "tables \<Rightarrow> int" where "ec t = int (length (errortable t))"
definition lac :: "tables \<Rightarrow> int" where "lac t = int (length (labeltable t))"
definition exc :: "tables \<Rightarrow> int" where "exc t = int (length (extable t))"

text \<open>The tables as \<open>main\<close> allocates them: \<open>calloc\<close> gives zeroed entries.\<close>

definition allocated_tables :: tables where
  "allocated_tables =
     \<lparr>instable = (\<lambda>_. Command 0 0 0 0), ic = 0, datatable = [], errortable = [],
      labeltable = [], extable = []\<rparr>"

text \<open>
  What a function of the source gives back: its \<open>int\<close> and the tables, or a fault. \<open>Exit\<close>
  is the return of the sentinel \<open>EXIT\<close>, which every caller passes on up to \<open>main\<close>;
  \<open>Undefined\<close> is a call with undefined behaviour.
\<close>

datatype fault = Exit | Undefined

type_synonym result = "fault + int \<times> tables"

subsection \<open>Appending to the tables (data.c)\<close>

definition add_error :: "tables \<Rightarrow> int \<Rightarrow> string \<Rightarrow> tables" where
  "add_error t line_number error_message =
     t\<lparr>errortable := errortable t @
         [\<lparr>error = (if length error_message > MAX_SIZE_MASAGE then [] else error_message),
           line = line_number\<rparr>]\<rparr>"

definition add_data :: "tables \<Rightarrow> int \<Rightarrow> tables" where
  "add_data t val = t\<lparr>datatable := datatable t @ [word_of_int val]\<rparr>"

definition add_ins :: "tables \<Rightarrow> RecordType \<Rightarrow> int \<Rightarrow> int \<Rightarrow> int \<Rightarrow> int \<Rightarrow> int \<Rightarrow> tables" where
  "add_ins t rtype val operand1 operand2 are addr =
     t\<lparr>instable := (instable t)(ic t :=
          (case rtype of
             RECORD_TYPE_COMMAND \<Rightarrow>
               Command (word_of_int val) (word_of_int operand1) (word_of_int operand2) 0
           | RECORD_TYPE_REGISTER \<Rightarrow>
               Register (word_of_int operand1) (word_of_int operand2) (word_of_int are)
           | RECORD_TYPE_ADDRESS \<Rightarrow>
               Address (word_of_int addr) (word_of_int are))),
       ic := ic t + 1\<rparr>"

definition add_extern :: "tables \<Rightarrow> string \<Rightarrow> int \<Rightarrow> tables" where
  "add_extern t str idx = t\<lparr>extable := extable t @ [\<lparr>ex_name = str, ex_index = idx\<rparr>]\<rparr>"

text \<open>
  \<open>search_label\<close>: the loop over the label table. The first entry of that name is marked
  for \<open>EXTERN\<close> and \<open>ENTRY\<close>; for a definition (\<open>INSTRUCTION\<close> or \<open>DIRECTIVE\<close>) an entry
  of that name marked \<open>ENTRY\<close> receives the type and the index, and any other entry of
  that name is passed over.
\<close>

fun search_label :: "labelMemory list \<Rightarrow> string \<Rightarrow> int \<Rightarrow> int \<Rightarrow> int \<Rightarrow> labelMemory list \<times> bool" where
  "search_label [] str ty ic0 dc0 = ([], False)"
| "search_label (l # ls) str ty ic0 dc0 =
     (if name l = str \<and> ty = EXTERN then (l\<lparr>en := EXTERN\<rparr> # ls, True)
      else if name l = str \<and> ty = ENTRY then (l\<lparr>en := ENTRY\<rparr> # ls, True)
      else if name l = str \<and> (ty = INSTRUCTION \<or> ty = DIRECTIVE) \<and> en l = ENTRY
      then (if ty = DIRECTIVE then (l\<lparr>type := ty, index' := dc0\<rparr> # ls, True)
            else (l\<lparr>type := ty, index' := ic0\<rparr> # ls, True))
      else (case search_label ls str ty ic0 dc0 of (ls', found) \<Rightarrow> (l # ls', found)))"

text \<open>
  \<open>add_label\<close>: when \<open>search_label\<close> finds nothing, the next entry of the zeroed table
  gets the name and, by kind, the type and index or the \<open>en\<close> mark; the fields it does
  not assign stay 0.
\<close>

definition add_label :: "tables \<Rightarrow> string \<Rightarrow> int \<Rightarrow> int \<Rightarrow> int \<Rightarrow> tables" where
  "add_label t str ty ic0 dc0 =
     (case search_label (labeltable t) str ty ic0 dc0 of
        (ls', True) \<Rightarrow> t\<lparr>labeltable := ls'\<rparr>
      | (ls', False) \<Rightarrow>
          t\<lparr>labeltable := ls' @
               [\<lparr>name = str,
                 type = (if ty = INSTRUCTION \<or> ty = DIRECTIVE then ty else 0),
                 index' = (if ty = INSTRUCTION then ic0 else if ty = DIRECTIVE then dc0 else 0),
                 en = (if ty = EXTERN then EXTERN else if ty = ENTRY then ENTRY else 0)\<rparr>]\<rparr>)"

definition have_entry :: "labelMemory list \<Rightarrow> bool" where
  "have_entry ls = list_ex (\<lambda>l. en l = ENTRY) ls"

subsection \<open>Instruction lines in the first pass (instruction.c)\<close>

definition TAB :: char where "TAB = CHR 0x09"

text \<open>\<open>is_matrix\<close> returns 0 when the string holds a bracket and 1 otherwise.\<close>

definition is_matrix :: "string \<Rightarrow> int" where
  "is_matrix str = (if CHR ''['' \<in> set str \<or> CHR '']'' \<in> set str then 0 else 1)"

text \<open>
  \<open>which_type_operand\<close>: after the leading white space, \<open>#\<close> gives \<open>IMMEDIATE\<close>; the letter
  \<open>r\<close> followed by a digit from 0 to 7 gives \<open>REGISTER\<close>, whatever comes after the digit;
  then a bracket anywhere gives \<open>MATRIX\<close>; everything else is \<open>DIRECT\<close>.
\<close>

definition which_type_operand :: "string option \<Rightarrow> int" where
  "which_type_operand str =
     (case str of
        None \<Rightarrow> NO_OPERAND
      | Some s \<Rightarrow>
          if only_spaces_and_tabs s then NO_OPERAND
          else (let i = length (takeWhile isspace_c s)
                in if char_at s i = CHR ''#'' then IMMEDIATE
                   else if char_at s i = CHR ''r'' \<and> 48 \<le> char_code (char_at s (i + 1))
                           \<and> char_code (char_at s (i + 1)) \<le> 55
                   then REGISTER
                   else if is_matrix s = 0 then MATRIX
                   else DIRECT))"

text \<open>
  The macros of instruction.h. A check macro either returns from \<open>word\<close> (\<open>Some\<close> of the
  returned value and tables) or falls through (\<open>None\<close>); a \<open>SET_OPCODE\<close> macro appends
  the command word and returns 1.
\<close>

definition OPERAND_2_CHECK :: "tables \<Rightarrow> int \<Rightarrow> int \<Rightarrow> int \<Rightarrow> (int \<times> tables) option" where
  "OPERAND_2_CHECK t cl operand1 operand2 =
     (if operand1 = NO_OPERAND \<or> operand2 = NO_OPERAND
      then Some (0, add_error t cl '': error! there must be 2 operands'')
      else None)"

definition OPERAND_1_CHECK :: "tables \<Rightarrow> int \<Rightarrow> int \<Rightarrow> int \<Rightarrow> (int \<times> tables) option" where
  "OPERAND_1_CHECK t cl operand1 operand2 =
     (if (operand1 = NO_OPERAND \<and> operand2 = NO_OPERAND)
         \<or> (operand1 \<noteq> NO_OPERAND \<and> operand2 \<noteq> NO_OPERAND)
      then Some (0, add_error t cl '': error! there must be 1 operand'')
      else None)"

definition OPERAND_0_CHECK :: "tables \<Rightarrow> int \<Rightarrow> int \<Rightarrow> int \<Rightarrow> (int \<times> tables) option" where
  "OPERAND_0_CHECK t cl operand1 operand2 =
     (if operand1 \<noteq> NO_OPERAND \<or> operand2 \<noteq> NO_OPERAND
      then Some (0, add_error t cl '': error! there must be 0 operands'')
      else None)"

definition IMMEDIATE_IS_ERROR :: "tables \<Rightarrow> int \<Rightarrow> int \<Rightarrow> (int \<times> tables) option" where
  "IMMEDIATE_IS_ERROR t cl operand_p =
     (if operand_p = IMMEDIATE
      then Some (0, add_error t cl '': error! illegal address in operand'')
      else None)"

definition SET_OPCODE_2_AND_TYPE2 :: "tables \<Rightarrow> int \<Rightarrow> int \<Rightarrow> int \<Rightarrow> int \<times> tables" where
  "SET_OPCODE_2_AND_TYPE2 t val operand1 operand2 =
     (1, add_ins t RECORD_TYPE_COMMAND val operand1 operand2 0 0)"

definition SET_OPCODE_1_AND_TYPE1 :: "tables \<Rightarrow> int \<Rightarrow> int \<Rightarrow> int \<times> tables" where
  "SET_OPCODE_1_AND_TYPE1 t val operand = (1, add_ins t RECORD_TYPE_COMMAND val 0 operand 0 0)"

definition SET_OPCODE_0_AND_TYPE0 :: "tables \<Rightarrow> int \<Rightarrow> int \<times> tables" where
  "SET_OPCODE_0_AND_TYPE0 t val = (1, add_ins t RECORD_TYPE_COMMAND val 0 0 0 0)"

text \<open>The three shapes a branch of \<open>word\<close> takes, macro after macro.\<close>

definition two_operand_word :: "bool \<Rightarrow> int \<Rightarrow> tables \<Rightarrow> int \<Rightarrow> int \<Rightarrow> int \<Rightarrow> int \<times> tables" where
  "two_operand_word immediate_check val t cl operand1 operand2 =
     (case OPERAND_2_CHECK t cl operand1 operand2 of
        Some r \<Rightarrow> r
      | None \<Rightarrow>
          (case (if immediate_check then IMMEDIATE_IS_ERROR t cl operand2 else None) of
             Some r \<Rightarrow> r
           | None \<Rightarrow> SET_OPCODE_2_AND_TYPE2 t val operand1 operand2))"

definition one_operand_word :: "bool \<Rightarrow> int \<Rightarrow> tables \<Rightarrow> int \<Rightarrow> int \<Rightarrow> int \<Rightarrow> int \<times> tables" where
  "one_operand_word immediate_check val t cl operand1 operand2 =
     (case OPERAND_1_CHECK t cl operand1 operand2 of
        Some r \<Rightarrow> r
      | None \<Rightarrow>
          (case (if immediate_check then IMMEDIATE_IS_ERROR t cl operand1 else None) of
             Some r \<Rightarrow> r
           | None \<Rightarrow> SET_OPCODE_1_AND_TYPE1 t val operand1))"

definition zero_operand_word :: "int \<Rightarrow> tables \<Rightarrow> int \<Rightarrow> int \<Rightarrow> int \<Rightarrow> int \<times> tables" where
  "zero_operand_word val t cl operand1 operand2 =
     (case OPERAND_0_CHECK t cl operand1 operand2 of
        Some r \<Rightarrow> r
      | None \<Rightarrow> SET_OPCODE_0_AND_TYPE0 t val)"

text \<open>
  \<open>word\<close>. In the \<open>lea\<close> branch the \<open>if\<close> on the addressing modes ends in a semicolon, so
  the block after it always runs: it appends the command word and returns 1, and the
  \<open>add_error\<close> that follows the block is never reached. A name that is no opcode falls
  through to \<open>return 0\<close>.
\<close>

definition word :: "string \<Rightarrow> int \<Rightarrow> int \<Rightarrow> tables \<Rightarrow> int \<Rightarrow> int \<times> tables" where
  "word str operand1 operand2 t cl =
     (if str = ''mov'' then two_operand_word True MOV t cl operand1 operand2
      else if str = ''cmp'' then two_operand_word False CMP t cl operand1 operand2
      else if str = ''add'' then two_operand_word True ADD t cl operand1 operand2
      else if str = ''sub'' then two_operand_word True SUB t cl operand1 operand2
      else if str = ''lea'' then
        (case OPERAND_2_CHECK t cl operand1 operand2 of
           Some r \<Rightarrow> r
         | None \<Rightarrow> SET_OPCODE_2_AND_TYPE2 t LEA operand1 operand2)
      else if str = ''not'' then one_operand_word True NOT t cl operand1 operand2
      else if str = ''clr'' then one_operand_word True CLR t cl operand1 operand2
      else if str = ''inc'' then one_operand_word True INC t cl operand1 operand2
      else if str = ''dec'' then one_operand_word True DEC t cl operand1 operand2
      else if str = ''jmp'' then one_operand_word True JMP t cl operand1 operand2
      else if str = ''bne'' then one_operand_word True BNE t cl operand1 operand2
      else if str = ''red'' then one_operand_word True RED t cl operand1 operand2
      else if str = ''prn'' then one_operand_word False PRN t cl operand1 operand2
      else if str = ''jsr'' then one_operand_word True JSR t cl operand1 operand2
      else if str = ''rts'' then zero_operand_word RTS t cl operand1 operand2
      else if str = ''stop'' then zero_operand_word STOP t cl operand1 operand2
      else (0, t))"

text \<open>\<open>while (i < len && P(str[i])) i++\<close>, from index \<open>i\<close>.\<close>

definition skip_while :: "(char \<Rightarrow> bool) \<Rightarrow> string \<Rightarrow> nat \<Rightarrow> nat" where
  "skip_while P str i = i + length (takeWhile P (drop i str))"

definition register_missing :: "string \<Rightarrow> nat \<Rightarrow> bool" where
  "register_missing str i =
     (i \<ge> length str \<or> char_at str i \<noteq> CHR ''r'' \<or> i + 1 \<ge> length str
      \<or> \<not> isdigit_c (char_at str (i + 1))
      \<or> char_code (char_at str (i + 1)) < 48 \<or> char_code (char_at str (i + 1)) > 55)"

text \<open>
  \<open>is_valid_matrix\<close>, check by check. When the text ends after the first bracket pair
  the source records the diagnostic and returns 1.
\<close>

definition is_valid_matrix :: "string \<Rightarrow> tables \<Rightarrow> int \<Rightarrow> int \<times> tables" where
  "is_valid_matrix str t lc =
     (let len = length str;
          i1 = skip_while isspace_c str 0
      in if \<not> isalpha_c (char_at str i1)
         then (0, add_error t lc '': error! Invalid matrix. Matrix name must appear and begin with a letter'')
         else (let i2 = skip_while isalnum_c str (i1 + 1)
          in if i2 \<ge> len \<or> char_at str i2 \<noteq> CHR ''[''
             then (0, add_error t lc '': error! Invalid matrix'')
             else (let i3 = skip_while isspace_c str (i2 + 1)
              in if register_missing str i3
                 then (0, add_error t lc '': error! Invalid matrix a valid register must appear'')
                 else (let i4 = skip_while isspace_c str (i3 + 2)
                  in if i4 \<ge> len \<or> char_at str i4 \<noteq> CHR '']''
                     then (0, add_error t lc '': error! Invalid matrix'')
                     else if i4 + 1 \<ge> len \<or> char_at str (i4 + 1) \<noteq> CHR ''[''
                     then (1, add_error t lc '': error! Invalid matrix'')
                     else (let i6 = skip_while isspace_c str (i4 + 2)
                      in if register_missing str i6
                         then (0, add_error t lc '': error! Invalid matrix a valid register must appear'')
                         else (let i7 = skip_while isspace_c str (i6 + 2)
                          in if i7 \<ge> len \<or> char_at str i7 \<noteq> CHR '']''
                             then (0, add_error t lc '': error! Invalid matrix'')
                             else if list_ex (\<lambda>c. \<not> isspace_c c \<and> c \<noteq> CHR '','') (drop (i7 + 1) str)
                             then (0, add_error t lc '': error! Invalid matrix'')
                             else (1, t)))))))"

text \<open>
  \<open>parse_ops\<close>: the operand text is trimmed; two commas, a space with no comma (unless
  it stands before the last closing bracket) and an empty operand on either side of the
  comma are diagnostics.
\<close>

definition parse_ops :: "string option \<Rightarrow> tables \<Rightarrow> int \<Rightarrow> int \<times> tables" where
  "parse_ops ops_str t lc =
     (case ops_str of
        None \<Rightarrow> (1, t)
      | Some s \<Rightarrow>
          (let str = rev (dropWhile isspace_c (rev (dropWhile isspace_c s)));
               comma = length (takeWhile (\<lambda>c. c \<noteq> CHR '','') str)
           in if comma < length str \<and> CHR '','' \<in> set (drop (comma + 1) str)
              then (0, add_error t lc '': error! there must be only one comma between operands.'')
              else if length str = 0 then (1, t)
              else if comma \<ge> length str
              then (let space = length (takeWhile (\<lambda>c. c \<noteq> CHR '' '') str);
                        after_last_bracket = length (takeWhile (\<lambda>c. c \<noteq> CHR '']'') (rev str))
                    in if space < length str
                          \<and> (CHR '']'' \<notin> set str \<or> space > length str - 1 - after_last_bracket)
                       then (0, add_error t lc '': error! there must be a comma between operands.'')
                       else (1, t))
              else if list_all isspace_c (take comma str)
              then (0, add_error t lc '': error! a comma cannot be placed at the start or end of the line.'')
              else if list_all isspace_c (drop (comma + 1) str)
              then (0, add_error t lc '': error! a comma cannot be placed at the start or end of the line.'')
              else (1, t)))"

text \<open>
  \<open>update\<close> appends the words of one operand. \<open>str_p1\<close> and \<open>str_p2\<close> are the first
  tokens of the two operand texts for the delimiters blank, tab, \<open>r\<close> and \<open>#\<close>. An
  immediate operand with nothing after \<open>#\<close> hands \<open>NULL\<close> to \<open>strtol\<close>, and a matrix
  operand that \<open>is_valid_matrix\<close> let pass with fewer than two bracket tokens hands
  \<open>NULL\<close> to \<open>strlen\<close>: both are \<open>Undefined\<close>. \<open>memmove\<close> drops the \<open>r\<close> of a bracket
  token.
\<close>

definition update :: "string \<Rightarrow> string option \<Rightarrow> int \<Rightarrow> int \<Rightarrow> tables \<Rightarrow> int \<Rightarrow> result" where
  "update word1 word2 operand1 operand2 t lc =
     (let delim = [CHR '' '', TAB, CHR ''r'', CHR ''#''];
          delimitersMat = [CHR '' '', CHR ''['', CHR '']'', TAB];
          str_p1 = fst (strtok word1 delim);
          str_p2 = (case word2 of None \<Rightarrow> None | Some w2 \<Rightarrow> fst (strtok w2 delim))
      in if operand1 = IMMEDIATE then
           (case str_p1 of
              None \<Rightarrow> Inl Undefined
            | Some p1 \<Rightarrow>
                (case strtol p1 of
                   (num, ptr) \<Rightarrow>
                     if ptr \<noteq> []
                     then Inr (0, add_error t lc '': error! an immediate operand must contain a number.'')
                     else Inr (1, add_ins t RECORD_TYPE_ADDRESS 0 0 0 ABSOLUTE num)))
         else if operand1 = DIRECT then
           Inr (1, add_ins t RECORD_TYPE_ADDRESS 0 0 0 NO_KNEWN NO_KNEWN)
         else if operand1 = MATRIX then
           (case is_valid_matrix word1 t lc of
              (valid, t1) \<Rightarrow>
                if valid = 0 then Inr (0, t1)
                else (case strtok word1 delimitersMat of
                        (_, rest1) \<Rightarrow>
                          (case strtok rest1 delimitersMat of
                             (reg1mat, rest2) \<Rightarrow>
                               (case (reg1mat, fst (strtok rest2 delimitersMat)) of
                                  (Some r1, Some r2) \<Rightarrow>
                                    Inr (1, add_ins
                                              (add_ins t1 RECORD_TYPE_ADDRESS 0 0 0 NO_KNEWN NO_KNEWN)
                                              RECORD_TYPE_REGISTER 0 (atoi (drop 1 r1)) (atoi (drop 1 r2))
                                              ABSOLUTE 0)
                                | _ \<Rightarrow> Inl Undefined))))
         else if operand1 = REGISTER then
           (if operand2 = REGISTER then
              (case (str_p1, str_p2) of
                 (Some p1, Some p2) \<Rightarrow>
                   Inr (1, add_ins t RECORD_TYPE_REGISTER 0 (atoi p1) (atoi p2) ABSOLUTE 0)
               | _ \<Rightarrow> Inl Undefined)
            else
              (case str_p1 of
                 None \<Rightarrow> Inl Undefined
               | Some p1 \<Rightarrow>
                   if word2 = None
                   then Inr (1, add_ins t RECORD_TYPE_REGISTER 0 0 (atoi p1) ABSOLUTE 0)
                   else Inr (1, add_ins t RECORD_TYPE_REGISTER 0 (atoi p1) 0 ABSOLUTE 0)))
         else Inr (0, add_error t lc '': error! unknown operand''))"

text \<open>
  \<open>instruction\<close>: the four \<open>strtok\<close> calls on the copy of the line (the opcode, two
  operands cut at commas, and what is left), the operand kinds, the checks, the command
  word and the operand words. The value \<open>update\<close> returns is only compared with \<open>EXIT\<close>,
  so after a successful \<open>word\<close> the function returns 1 whatever \<open>update\<close> found. When the
  text after the opcode is the four letters of \<open>EXIT_C\<close>, the source takes it for the
  sentinel of a failed allocation and returns \<open>EXIT\<close>.
\<close>

definition instruction :: "string \<Rightarrow> tables \<Rightarrow> int \<Rightarrow> result" where
  "instruction str t lc =
     (let delimiters = [CHR '' '', CHR '','', TAB];
          delimiters2 = [CHR '',''];
          (word1, rest1) = strtok str delimiters;
          (word2, rest2) = strtok rest1 delimiters2;
          (word3, rest3) = strtok rest2 delimiters2;
          word4 = fst (strtok rest3 delimiters);
          operand1 = which_type_operand word2;
          operand2 = which_type_operand word3;
          tmp = string_without_first_word str delimiters
      in if tmp = Some ''EXIT'' then Inl Exit
         else if word4 \<noteq> None
         then Inr (0, add_error t lc '': error! More operands than allowed'')
         else (case parse_ops tmp t lc of
                 (temp, t1) \<Rightarrow>
                   if temp = 0 then Inr (0, t1)
                   else (case word1 of
                           None \<Rightarrow> Inl Undefined
                         | Some w1 \<Rightarrow>
                             (case word w1 operand1 operand2 t1 lc of
                                (temp2, t2) \<Rightarrow>
                                  if temp2 = 0 then Inr (1, t2)
                                  else (case (if word2 \<noteq> None \<and> operand1 \<noteq> NO_OPERAND
                                              then update (the word2) word3 operand1 operand2 t2 lc
                                              else Inr (1, t2)) of
                                          Inl f \<Rightarrow> Inl f
                                        | Inr (_, t3) \<Rightarrow>
                                            if operand1 = REGISTER \<and> operand2 = REGISTER
                                            then Inr (1, t3)
                                            else if word3 \<noteq> None \<and> operand1 \<noteq> NO_OPERAND
                                            then (case update (the word3) None operand2 0 t3 lc of
                                                    Inl f \<Rightarrow> Inl f
                                                  | Inr (_, t4) \<Rightarrow> Inr (1, t4))
                                            else Inr (1, t3))))))"

text \<open>
  For stating how many words a line takes: the two operand texts as \<open>instruction\<close> cuts
  them out of the line (its second and third \<open>strtok\<close>), and the number of words that
  the specification gives an operand of each addressing mode.
\<close>

definition instruction_operands :: "string \<Rightarrow> string option \<times> string option" where
  "instruction_operands str =
     (let (word1, rest1) = strtok str [CHR '' '', CHR '','', TAB];
          (word2, rest2) = strtok rest1 [CHR '',''];
          (word3, rest3) = strtok rest2 [CHR '','']
      in (word2, word3))"

definition words_for :: "int \<Rightarrow> int" where
  "words_for mode =
     (if mode = MATRIX then 2
      else if mode = IMMEDIATE \<or> mode = DIRECT \<or> mode = REGISTER then 1
      else 0)"

subsection \<open>Directive lines in the first pass (directive.c)\<close>

text \<open>
  The tokens that repeated calls \<open>strtok(buffer, d)\<close>, \<open>strtok(NULL, d)\<close>, ... return
  until the first \<open>NULL\<close>. The loops of the source that walk such a token sequence are
  recursions over this list.
\<close>

function tokens :: "string \<Rightarrow> string \<Rightarrow> string list" where
  "tokens s delims =
     (case strtok s delims of
        (None, _) \<Rightarrow> []
      | (Some tok, rest) \<Rightarrow> tok # tokens rest delims)"
  by pat_completeness auto
termination
  apply (relation "measure (\<lambda>(s, delims). length s)")
   apply simp
  apply (clarsimp simp: strtok_def Let_def split: if_splits)
  subgoal for s delims c
    using length_dropWhile_le [of "\<lambda>c. c \<notin> set delims" "dropWhile (\<lambda>c. c \<in> set delims) s"]
      length_dropWhile_le [of "\<lambda>c. c \<in> set delims" s]
    by (cases s) auto
  done

text \<open>
  \<open>is_conversion_successful\<close>: \<open>endptr\<close> is the text \<open>strtol\<close> stopped at; it equals the
  whole text exactly when no digit was read.
\<close>

definition is_conversion_successful :: "string \<Rightarrow> string \<Rightarrow> int \<Rightarrow> tables \<Rightarrow> int \<Rightarrow> int \<times> tables" where
  "is_conversion_successful str endptr val t cl =
     (if endptr = str \<or> endptr \<noteq> []
      then (0, add_error t cl '': error! invalid characters'')
      else if val > MAX_VAL \<or> val < MIN_VAL
      then (0, add_error t cl '': error! the value is too large or too small'')
      else (1, t))"

text \<open>\<open>is_valid_numbers\<close> reads \<open>str[len - 1]\<close>; the callers below treat the empty text apart.\<close>

definition is_valid_numbers :: "string \<Rightarrow> bool" where
  "is_valid_numbers str =
     (\<not> list_ex (\<lambda>i. char_at str i = CHR '','' \<and> char_at str (i + 1) = CHR '','') [0..<length str]
      \<and> \<not> (char_at str 0 = CHR '','' \<or> last str = CHR '',''))"

definition matrix_definition_valid :: "string \<Rightarrow> bool" where
  "matrix_definition_valid str =
     (let len = length str;
          i1 = skip_while isspace_c str 0
      in if i1 \<ge> len \<or> char_at str i1 \<noteq> CHR ''['' then False
         else (let i2 = skip_while isspace_c str (i1 + 1)
          in if i2 \<ge> len \<or> \<not> isdigit_c (char_at str i2) then False
             else (let i3 = skip_while isspace_c str (skip_while isdigit_c str i2)
              in if i3 \<ge> len \<or> char_at str i3 \<noteq> CHR '']'' then False
                 else if i3 + 1 \<ge> len \<or> char_at str (i3 + 1) \<noteq> CHR ''['' then False
                 else (let i4 = skip_while isspace_c str (i3 + 2)
                  in if i4 \<ge> len \<or> \<not> isdigit_c (char_at str i4) then False
                     else (let i5 = skip_while isspace_c str (skip_while isdigit_c str i4)
                      in if i5 \<ge> len \<or> char_at str i5 \<noteq> CHR '']'' then False
                         else isspace_c (char_at str (i5 + 1)))))))"

text \<open>
  The loop of \<open>data_update\<close> over the tokens: a value that does not convert ends the loop
  with its diagnostic, the values before it stay in the data image.
\<close>

fun data_values :: "string list \<Rightarrow> tables \<Rightarrow> int \<Rightarrow> tables" where
  "data_values [] t cl = t"
| "data_values (str # strs) t cl =
     (case strtol str of
        (val, endptr) \<Rightarrow>
          (case is_conversion_successful str endptr val t cl of
             (tmp, t1) \<Rightarrow> if tmp = 0 then t1 else data_values strs (add_data t1 val) cl))"

definition data_update :: "string option \<Rightarrow> tables \<Rightarrow> int \<Rightarrow> result" where
  "data_update wrd t cl =
     (case wrd of
        None \<Rightarrow> Inr (1, add_error t cl '': error! invalid data string, data string should have values'')
      | Some w \<Rightarrow>
          if only_spaces_and_tabs w
          then Inr (1, add_error t cl '': error! invalid data string, data string should have values'')
          else (let str_cpy = take (end_of_string w) w
                in if str_cpy = [] then Inl Undefined
                   else if \<not> is_valid_numbers str_cpy
                   then Inr (1, add_error t cl '': error! invalid data string'')
                   else Inr (1, data_values (tokens str_cpy [TAB, CHR '' '', CHR '','']) t cl)))"

text \<open>
  The initializer loop of \<open>mat_update\<close>,
  \<^verbatim>\<open>while(str1 != NULL && num < (val1 * val2))\<close>: the result is \<open>None\<close> when a value does
  not convert (the function then returns 0), otherwise the token the loop stopped at, the
  tables and \<open>num\<close>.
\<close>

fun mat_values :: "string list \<Rightarrow> int \<Rightarrow> int \<Rightarrow> tables \<Rightarrow> int \<Rightarrow> (string option \<times> tables \<times> int) + tables" where
  "mat_values [] num cells t cl = Inl (None, t, num)"
| "mat_values (str1 # strs) num cells t cl =
     (if num < cells
      then (case strtol str1 of
              (val, endptr) \<Rightarrow>
                (case is_conversion_successful str1 endptr val t cl of
                   (tmp, t1) \<Rightarrow>
                     if tmp = 0 then Inr t1
                     else mat_values strs (num + 1) cells (add_data t1 val) cl))
      else Inl (Some str1, t, num))"

text \<open>
  The padding loop \<^verbatim>\<open>while(num <= (val1 * val2))\<close> of the source, entered when
  \<open>num < val1 * val2\<close>: one zero word for every \<open>num\<close> up to and including
  \<open>val1 * val2\<close>.
\<close>

definition mat_padding :: "int \<Rightarrow> int \<Rightarrow> tables \<Rightarrow> tables" where
  "mat_padding num cells t = ((\<lambda>t. add_data t 0) ^^ nat (cells + 1 - num)) t"

text \<open>
  \<open>mat_update\<close>. \<open>str3\<close> and \<open>str4\<close> are the text after the first and after the second
  number. Both are compared with \<open>EXIT_C\<close> by \<open>strcmp\<close> before anything else, so a
  definition with no initializer (\<open>str4\<close> is \<open>NULL\<close>) is \<open>Undefined\<close> and the branch of the
  source for \<open>str4 == NULL\<close> is never reached by a defined execution.
\<close>

definition mat_update :: "string \<Rightarrow> tables \<Rightarrow> int \<Rightarrow> result" where
  "mat_update wrd t cl =
     (let delimiters = [TAB, CHR '' '', CHR '','', CHR ''['', CHR '']''];
          str3 = string_without_first_word wrd delimiters
      in case str3 of
           None \<Rightarrow> Inl Undefined
         | Some s3 \<Rightarrow>
             (let str4 = string_without_first_word s3 delimiters;
                  (str1, rest) = strtok wrd delimiters
              in if s3 = ''EXIT'' then Inl Exit
                 else case str4 of
                   None \<Rightarrow> Inl Undefined
                 | Some s4 \<Rightarrow>
                     if s4 = ''EXIT'' then Inl Exit
                     else case str1 of
                       None \<Rightarrow> Inr (0, add_error t cl '': error! invalid data matrix'')
                     | Some s1 \<Rightarrow>
                         if \<not> matrix_definition_valid wrd
                         then Inr (0, add_error t cl '': error! an ill-defined matrix'')
                         else case fst (strtok rest delimiters) of
                           None \<Rightarrow> Inl Undefined
                         | Some s2 \<Rightarrow>
                             (let (val1, endptr1) = strtol s1;
                                  (val2, endptr2) = strtol s2;
                                  (succ1, t1) = is_conversion_successful s1 endptr1 val1 t cl;
                                  (succ2, t2) = is_conversion_successful s2 endptr2 val2 t1 cl
                              in if \<not> (succ1 = 1 \<and> succ2 = 1) then Inr (0, t2)
                                 else (let s4' = take (end_of_string s4) s4
                                       in if s4' = [] then Inl Undefined
                                          else if \<not> is_valid_numbers s4'
                                          then Inr (0, add_error t2 cl '': error! invalid numbers string'')
                                          else case mat_values (tokens s4' delimiters) 0 (val1 * val2) t2 cl of
                                                 Inr t3 \<Rightarrow> Inr (0, t3)
                                               | Inl (stopped, t3, num) \<Rightarrow>
                                                   if stopped \<noteq> None \<and> num > val1 * val2
                                                   then Inr (0, add_error t3 cl '': error! more values than specified'')
                                                   else if num < val1 * val2
                                                   then Inr (1, mat_padding num (val1 * val2) t3)
                                                   else Inr (1, t3)))))"

definition is_valid_string :: "string \<Rightarrow> tables \<Rightarrow> int \<Rightarrow> int \<times> tables" where
  "is_valid_string str t cl =
     (let e = end_of_string str; b = begin_of_string str
      in if char_at str b \<noteq> CHR 0x22 \<or> char_at str (e - 1) \<noteq> CHR 0x22
         then (0, add_error t cl '': error! String must start and end with quotes'')
         else if list_ex (\<lambda>i. char_code (char_at str i) > 126 \<or> char_code (char_at str i) < 32)
                   [b + 1..<e]
         then (0, add_error t cl '': error! illegal characters in a string'')
         else (1, t))"

definition string_update :: "string \<Rightarrow> tables \<Rightarrow> int \<Rightarrow> result" where
  "string_update wrd t cl =
     (case is_valid_string wrd t cl of
        (valid, t1) \<Rightarrow>
          if valid = 1
          then Inr (1, add_data
                         (foldl (\<lambda>t i. add_data t (int (char_code (char_at wrd i)))) t1
                            [1..<end_of_string wrd - 1])
                         0)
          else Inr (1, t1))"

text \<open>
  \<open>directive\<close>: the text after the directive's name goes to the handler. \<open>strcmp\<close> with
  \<open>EXIT_C\<close> comes first, on a \<open>NULL\<close> when nothing follows the name. The handler's return
  value is only compared with \<open>EXIT\<close>.
\<close>

definition directive :: "string \<Rightarrow> tables \<Rightarrow> int \<Rightarrow> result" where
  "directive str t cl =
     (let delimiters = [CHR '' '', TAB];
          word1 = fst (strtok str delimiters);
          word2 = string_without_first_word str delimiters
      in case word2 of
           None \<Rightarrow> Inl Undefined
         | Some w2 \<Rightarrow>
             if w2 = ''EXIT'' then Inl Exit
             else case word1 of
               None \<Rightarrow> Inl Undefined
             | Some w1 \<Rightarrow>
                 if w1 = ''.data'' then
                   (case data_update word2 t cl of Inl f \<Rightarrow> Inl f | Inr (_, t1) \<Rightarrow> Inr (1, t1))
                 else if w1 = ''.string'' then
                   (case string_update w2 t cl of Inl f \<Rightarrow> Inl f | Inr (_, t1) \<Rightarrow> Inr (1, t1))
                 else if w1 = ''.mat'' then
                   (case mat_update w2 t cl of Inl f \<Rightarrow> Inl f | Inr (_, t1) \<Rightarrow> Inr (1, t1))
                 else Inr (1, add_error t cl '': error! unknown directive command name''))"

subsection \<open>The first pass over a line (code.c, pre_assembler.c)\<close>

definition UPDATE :: int where "UPDATE = 100"
definition NOT_UPDATE :: int where "NOT_UPDATE = 110"

definition RESERVED_WORDS :: "string list" where
  "RESERVED_WORDS =
     [''mov'', ''cmp'', ''add'', ''sub'', ''not'', ''clr'', ''lea'', ''inc'', ''dec'', ''jmp'',
      ''bne'', ''red'', ''prn'', ''jsr'', ''rts'', ''stop'', ''data'', ''string'', ''mat'', ''entry'',
      ''extern'', ''.data'', ''.string'', ''.mat'', ''.entry'', ''.extern'', ''mcro'', ''mcroend'',
      ''r0'', ''r1'', ''r2'', ''r3'', ''r4'', ''r5'', ''r6'', ''r7'']"

definition is_reserved_word :: "string \<Rightarrow> bool" where
  "is_reserved_word token = (token \<in> set RESERVED_WORDS)"

definition opcode_names :: "string list" where
  "opcode_names =
     [''mov'', ''cmp'', ''add'', ''sub'', ''not'', ''clr'', ''lea'', ''inc'', ''dec'', ''jmp'',
      ''bne'', ''red'', ''prn'', ''jsr'', ''rts'', ''stop'']"

text \<open>
  \<open>which_type\<close> returns the kind of a command word, -1 when it is none; it records the
  diagnostic for a missing word always and for an unknown word when asked to (\<open>UPDATE\<close>).
\<close>

definition which_type :: "string option \<Rightarrow> tables \<Rightarrow> int \<Rightarrow> int \<Rightarrow> int \<times> tables" where
  "which_type str t cl check_for_valid =
     (case str of
        None \<Rightarrow> (- 1, add_error t cl '': error! Unrecognized command name'')
      | Some s \<Rightarrow>
          if s = ''.data'' \<or> s = ''.string'' \<or> s = ''.mat'' then (DIRECTIVE, t)
          else if s \<in> set opcode_names then (INSTRUCTION, t)
          else if s = ''.entry'' then (ENTRY, t)
          else if s = ''.extern'' then (EXTERN, t)
          else if check_for_valid = UPDATE
          then (- 1, add_error t cl '': error! Unrecognized command name'')
          else (- 1, t))"

text \<open>
  \<open>valid_label\<close>. The loop over the label table returns at the first entry of the same
  name, except that an entry marked \<open>ENTRY\<close> whose type and index are still 0 is passed
  over. \<open>macros\<close> are the names in the macro table.
\<close>

definition valid_label :: "string \<Rightarrow> tables \<Rightarrow> string list \<Rightarrow> int \<Rightarrow> int \<times> tables" where
  "valid_label str t macros cl =
     (let b = begin_of_string str
      in if isdigit_c (char_at str b) \<or> char_at str b = CHR ''_''
         then (0, add_error t cl '': error! Label starts with a digit or an underscore'')
         else if length str - b > MAX_SIZE_LABEL
         then (0, add_error t cl '': error! Label too long (max 30 characters)'')
         else if list_ex (\<lambda>c. \<not> isalnum_c c \<and> c \<noteq> CHR ''_'') str
         then (0, add_error t cl '': error! Label with non-alphanumeric characters'')
         else (case find (\<lambda>l. name l = str \<and> \<not> (en l = ENTRY \<and> type l = 0 \<and> index' l = 0))
                      (labeltable t) of
                 Some l \<Rightarrow>
                   if en l = EXTERN
                   then (0, add_error t cl '': error! Label name already defined as external'')
                   else (0, add_error t cl '': error! Label name already defined'')
               | None \<Rightarrow>
                   if is_reserved_word str
                   then (0, add_error t cl '': error! The label name is a reserved word'')
                   else if str \<in> set macros
                   then (0, add_error t cl '': error! The label name has already been defined as a macro'')
                   else (1, t)))"

text \<open>
  \<open>search_entery_and_update\<close>. The loop visits every entry of the given name: one that
  is neither \<open>ENTRY\<close> nor \<open>EXTERN\<close> is marked \<open>ENTRY\<close> and sets \<open>flag\<close>; for any other
  the diagnostic is recorded. After the loop, \<open>flag == 0\<close> leads to \<open>add_label\<close> with
  kind \<open>ENTRY\<close>, also when the loop met the name and recorded the diagnostic.
\<close>

fun search_entery_loop :: "labelMemory list \<Rightarrow> string \<Rightarrow> error list \<Rightarrow> int \<Rightarrow> labelMemory list \<times> bool \<times> error list" where
  "search_entery_loop [] str errs cl = ([], False, errs)"
| "search_entery_loop (l # ls) str errs cl =
     (if name l = str
      then (if en l \<noteq> ENTRY \<and> en l \<noteq> EXTERN
            then (case search_entery_loop ls str errs cl of
                    (ls', flag, errs') \<Rightarrow> (l\<lparr>en := ENTRY\<rparr> # ls', True, errs'))
            else (case search_entery_loop ls str
                         (errs @ [\<lparr>error = '': error! invalid enternal label'', line = cl\<rparr>]) cl of
                    (ls', flag, errs') \<Rightarrow> (l # ls', flag, errs')))
      else (case search_entery_loop ls str errs cl of
              (ls', flag, errs') \<Rightarrow> (l # ls', flag, errs')))"

definition search_entery_and_update :: "string \<Rightarrow> tables \<Rightarrow> int \<Rightarrow> int \<times> tables" where
  "search_entery_and_update str t cl =
     (case search_entery_loop (labeltable t) str (errortable t) cl of
        (ls', flag, errs') \<Rightarrow>
          (let t1 = t\<lparr>labeltable := ls', errortable := errs'\<rparr>
           in if \<not> flag then (1, add_label t1 str ENTRY 0 0) else (1, t1)))"

text \<open>
  \<open>first_pass\<close> for one line; \<open>cl\<close> is the index of the line. A colon anywhere in the
  line must be followed by a blank or a tab. A first word that ends in a colon is a
  label: it is validated and, unless the line is an \<open>.entry\<close> or \<open>.extern\<close> line,
  entered with the current \<open>ic\<close> or \<open>dc\<close>. The name after \<open>.extern\<close> or \<open>.entry\<close> goes
  to the label table as it stands (a missing name is a \<open>NULL\<close> handed to \<open>strcmp\<close>).
\<close>

definition first_pass :: "string \<Rightarrow> tables \<Rightarrow> string list \<Rightarrow> int \<Rightarrow> result" where
  "first_pass str t macros cl =
     (let delimiters = [CHR '' '', CHR '','', TAB];
          delims = [CHR '' '', TAB];
          i = length (takeWhile (\<lambda>c. c \<noteq> CHR '':'') str);
          (word1, rest) = strtok str delimiters;
          word2 = fst (strtok rest delimiters)
      in if i \<noteq> length str \<and> char_at str (i + 1) \<noteq> CHR '' '' \<and> char_at str (i + 1) \<noteq> TAB
         then Inr (0, add_error t cl '': error! there must be a space or tab after a label'')
         else
           (case (if word1 \<noteq> None \<and> is_label word1
                  then (let w1 = butlast (the word1);
                            (ty, t1) = which_type word2 t cl UPDATE;
                            (valid, t2) = valid_label w1 t1 macros cl
                        in if valid = 0 \<or> ty = - 1 then Inl (Inr (0, t2))
                           else (let t3 = (if ty \<noteq> EXTERN \<and> ty \<noteq> ENTRY
                                           then add_label t2 w1 ty (ic t2) (dc t2) else t2)
                                 in case string_without_first_word str delimiters of
                                      None \<Rightarrow> Inl (Inl Undefined)
                                    | Some strptr \<Rightarrow>
                                        if strptr = ''EXIT'' then Inl (Inl Exit)
                                        else Inr (ty, strptr, t3)))
                  else (case which_type word1 t cl UPDATE of (ty, t1) \<Rightarrow> Inr (ty, str, t1))) of
              Inl r \<Rightarrow> r
            | Inr (ty, strptr, t1) \<Rightarrow>
                if ty = DIRECTIVE then
                  (case directive strptr t1 cl of Inl f \<Rightarrow> Inl f | Inr (_, t2) \<Rightarrow> Inr (1, t2))
                else if ty = INSTRUCTION then
                  (case instruction strptr t1 cl of Inl f \<Rightarrow> Inl f | Inr (_, t2) \<Rightarrow> Inr (1, t2))
                else if ty = EXTERN \<or> ty = ENTRY then
                  (case tokens strptr delims of
                     w1 # w2 # w3 # _ \<Rightarrow>
                       Inr (1, add_error t1 cl
                                 (if ty = EXTERN then '': error! invalid external label''
                                  else '': error! invalid enternal label''))
                   | [w1, w2] \<Rightarrow>
                       if ty = EXTERN then Inr (1, add_label t1 w2 EXTERN 0 0)
                       else Inr (search_entery_and_update w2 t1 cl)
                   | _ \<Rightarrow> Inl Undefined)
                else Inr (1, t1)))"

subsection \<open>The base-4 encoder (second_pass.c)\<close>

text \<open>
  \<open>digit_to_char_special_base4\<close> is the \<open>switch\<close> of the source, with the NUL
  character for the \<open>default\<close> case; \<open>special_base4_digit\<close> is the inverse \<open>switch\<close>
  that \<open>add_one_to_special_base4\<close> and \<open>int_to_special_base4\<close> both inline (\<open>digit\<close>
  stays 0 for any other character).
\<close>

definition digit_to_char_special_base4 :: "int \<Rightarrow> char" where
  "digit_to_char_special_base4 digit =
     (if digit = 0 then CHR ''a''
      else if digit = 1 then CHR ''b''
      else if digit = 2 then CHR ''c''
      else if digit = 3 then CHR ''d''
      else CHR 0x00)"

definition special_base4_digit :: "char \<Rightarrow> int" where
  "special_base4_digit c =
     (if c = CHR ''a'' then 0
      else if c = CHR ''b'' then 1
      else if c = CHR ''c'' then 2
      else if c = CHR ''d'' then 3
      else 0)"

text \<open>
  The loop of \<open>add_one_to_special_base4\<close>,
  \<^verbatim>\<open>for (i = len - 1; i >= 0 && carry > 0; i--)\<close>: the first argument is \<open>i + 1\<close>.
\<close>

fun add_one_loop :: "nat \<Rightarrow> int \<Rightarrow> string \<Rightarrow> string" where
  "add_one_loop 0 carry s = s"
| "add_one_loop (Suc i) carry s =
     (if carry > 0
      then (let digit = special_base4_digit (s ! i) + carry
            in add_one_loop i (digit div 4) (s[i := digit_to_char_special_base4 (digit mod 4)]))
      else s)"

definition add_one_to_special_base4 :: "string \<Rightarrow> nat \<Rightarrow> string" where
  "add_one_to_special_base4 base4_str len = add_one_loop len 1 base4_str"

text \<open>
  The digit loop of \<open>int_to_special_base4\<close>,
  \<^verbatim>\<open>while (current_num > 0 && i >= 0) { base4_str[i--] = ...(current_num % 4); current_num /= 4; }\<close>,
  again with \<open>i + 1\<close> as first argument. It runs on a non-negative \<open>current_num\<close>, where
  C's \<open>/\<close> and \<open>%\<close> agree with \<open>div\<close> and \<open>mod\<close>.
\<close>

fun fill_digits :: "nat \<Rightarrow> int \<Rightarrow> string \<Rightarrow> string" where
  "fill_digits 0 current_num s = s"
| "fill_digits (Suc i) current_num s =
     (if current_num > 0
      then fill_digits i (current_num div 4) (s[i := digit_to_char_special_base4 (current_num mod 4)])
      else s)"

text \<open>
  \<open>int_to_special_base4\<close>: the buffer is set to \<open>num_digits\<close> times \<open>a\<close>; a negative
  number has the digits of its absolute value written, every digit inverted (\<open>3 - digit\<close>)
  and one added. For \<open>INT_MIN\<close> the absolute value is \<open>INT_MIN\<close> itself and the digit
  loop, which runs while \<open>current_num > 0\<close>, writes nothing. The width is one of the
  constants 1, 2, 4, 5, 8 in every call, hence a \<open>nat\<close>.
\<close>

definition int_to_special_base4 :: "int \<Rightarrow> nat \<Rightarrow> string" where
  "int_to_special_base4 num num_digits =
     (let base4_str = replicate num_digits (CHR ''a'') in
      if num < 0
      then add_one_to_special_base4
             (map (\<lambda>c. digit_to_char_special_base4 (3 - special_base4_digit c))
                  (fill_digits num_digits (abs_c num) base4_str))
             num_digits
      else fill_digits num_digits num base4_str)"

text \<open>
  The source has no decoder. The two readings of an encoded field that the specification
  speaks of are defined here, following its words: the string as a base-4 numeral with
  \<open>a, b, c, d\<close> for 0 to 3, and that numeral as a two's-complement number of the string's
  width. \<open>digits_of\<close> is the positional representation used in the proofs.
\<close>

definition decode_special_base4 :: "string \<Rightarrow> int" where
  "decode_special_base4 s = foldl (\<lambda>acc c. 4 * acc + special_base4_digit c) 0 s"

definition decode_twos_complement :: "string \<Rightarrow> int" where
  "decode_twos_complement s =
     (let v = decode_special_base4 s; m = 4 ^ length s
      in if v \<ge> m div 2 then v - m else v)"

definition special_base4_alphabet :: "char set" where
  "special_base4_alphabet = {CHR ''a'', CHR ''b'', CHR ''c'', CHR ''d''}"

fun digits_of :: "nat \<Rightarrow> int \<Rightarrow> string" where
  "digits_of 0 n = []"
| "digits_of (Suc w) n = digits_of w (n div 4) @ [digit_to_char_special_base4 (n mod 4)]"

subsection \<open>Relocation and the second pass (second_pass.c, code.c)\<close>

text \<open>
  \<open>index_update\<close>: the two sums are sums of \<open>int\<close>, left to right. A label's type is
  \<open>DIRECTIVE\<close> or \<open>INSTRUCTION\<close> when \<open>add_label\<close> has set it; the labels entered by
  \<open>.extern\<close> and \<open>.entry\<close> keep the 0 of \<open>calloc\<close>, which is \<open>INSTRUCTION\<close>.
\<close>

definition index_update :: "labelMemory list \<Rightarrow> int \<Rightarrow> labelMemory list" where
  "index_update ls ic0 =
     map (\<lambda>l. if type l = DIRECTIVE
              then l\<lparr>index' := wrap_int (wrap_int (index' l + ic0) + MEMORY_START)\<rparr>
              else if type l = INSTRUCTION
              then l\<lparr>index' := wrap_int (index' l + MEMORY_START)\<rparr>
              else l) ls"

text \<open>
  \<open>search_and_update\<close>: the first label of the given name decides. For an \<open>EXTERN\<close>
  label the use is recorded with the address \<open>ic2 + MEMORY_START\<close> and the word at
  \<open>ic2\<close> becomes an address word with address 0 and tag \<open>EXTERNAL\<close>; for any other label
  the word at \<open>ic2\<close> becomes an address word with the label's index and tag
  \<open>RELOCATABLE\<close>. When no label has the name the diagnostic is recorded. A \<open>NULL\<close> name is
  handed to \<open>strcmp\<close> as soon as the table has an entry.
\<close>

definition search_and_update :: "string option \<Rightarrow> tables \<Rightarrow> int \<Rightarrow> int \<Rightarrow> result" where
  "search_and_update str t ic2 cl =
     (if str = None \<and> labeltable t \<noteq> [] then Inl Undefined
      else (case find (\<lambda>l. Some (name l) = str) (labeltable t) of
              Some l \<Rightarrow>
                if en l = EXTERN
                then Inr (1, (add_extern t (the str) (ic2 + MEMORY_START))
                               \<lparr>instable := (instable t)(ic2 := Address 0 (word_of_int EXTERNAL))\<rparr>)
                else Inr (1, t\<lparr>instable := (instable t)
                                  (ic2 := Address (word_of_int (index' l)) (word_of_int RELOCATABLE))\<rparr>)
            | None \<Rightarrow> Inr (0, add_error t cl '': error! Label name is not defined'')))"

text \<open>
  The part of \<open>instruction_uptade_address\<close> that handles the second operand, shared by
  its two branches: a matrix operand resolves the label before the first bracket and
  advances \<open>ic2\<close> by 2, a direct operand resolves the whole text and advances by 1, any
  other operand advances by 1. The result carries \<open>word2\<close> as the buffer reads afterwards.
\<close>

definition second_operand_address :: "string option \<Rightarrow> tables \<Rightarrow> int \<Rightarrow> int \<Rightarrow> fault + string option \<times> tables \<times> int" where
  "second_operand_address word2 t ic2 cl =
     (let delimiters_mat = [CHR '' '', CHR ''['', CHR '']'', TAB]
      in if word2 \<noteq> None \<and> which_type_operand word2 = MATRIX
         then (case search_and_update (fst (strtok (the word2) delimiters_mat)) t ic2 cl of
                 Inl f \<Rightarrow> Inl f
               | Inr (_, t1) \<Rightarrow> Inr (Some (strtok_buffer (the word2) delimiters_mat), t1, ic2 + 2))
         else if word2 \<noteq> None \<and> which_type_operand word2 = DIRECT
         then (case search_and_update word2 t ic2 cl of
                 Inl f \<Rightarrow> Inl f
               | Inr (_, t1) \<Rightarrow> Inr (word2, t1, ic2 + 1))
         else if word2 \<noteq> None then Inr (word2, t, ic2 + 1)
         else Inr (word2, t, ic2))"

text \<open>
  \<open>instruction_uptade_address\<close> on the operand text of an instruction line, from the
  counter \<open>ic2\<close>; the result is the returned value, the tables and the new \<open>ic2\<close>. The two
  operands are cut at commas and trimmed at the right.
\<close>

definition trim_right :: "string option \<Rightarrow> string option" where
  "trim_right w = (case w of None \<Rightarrow> None | Some s \<Rightarrow> Some (take (end_of_string s) s))"

definition instruction_uptade_address :: "string \<Rightarrow> tables \<Rightarrow> int \<Rightarrow> int \<Rightarrow> fault + int \<times> tables \<times> int" where
  "instruction_uptade_address str t ic2 cl =
     (let delimiters = [CHR '',''];
          delimiters_mat = [CHR '' '', CHR ''['', CHR '']'', TAB];
          (w1, rest) = strtok str delimiters;
          word1 = trim_right w1;
          word2 = trim_right (fst (strtok rest delimiters));
          ic2a = ic2 + 1
      in case
           (if word1 \<noteq> None \<and> (which_type_operand word1 = MATRIX \<or> which_type_operand word1 = DIRECT)
            then (case
                    (if which_type_operand word1 = MATRIX
                     then (case search_and_update (fst (strtok (the word1) delimiters_mat)) t ic2a cl of
                             Inl f \<Rightarrow> Inl f
                           | Inr (_, t1) \<Rightarrow>
                               Inr (Some (strtok_buffer (the word1) delimiters_mat), t1, ic2a + 2))
                     else (case search_and_update word1 t ic2a cl of
                             Inl f \<Rightarrow> Inl f
                           | Inr (_, t1) \<Rightarrow> Inr (word1, t1, ic2a + 1))) of
                    Inl f \<Rightarrow> Inl f
                  | Inr (word1', t1, ic2b) \<Rightarrow>
                      (case second_operand_address word2 t1 ic2b cl of
                         Inl f \<Rightarrow> Inl f
                       | Inr (word2', t2, ic2c) \<Rightarrow> Inr (word1', word2', t2, ic2c)))
            else if word1 \<noteq> None
            then (case second_operand_address word2 t (ic2a + 1) cl of
                    Inl f \<Rightarrow> Inl f
                  | Inr (word2', t2, ic2c) \<Rightarrow> Inr (word1, word2', t2, ic2c))
            else Inr (word1, word2, t, ic2a)) of
           Inl f \<Rightarrow> Inl f
         | Inr (word1', word2', t2, ic2c) \<Rightarrow>
             if which_type_operand word1' = REGISTER \<and> which_type_operand word2' = REGISTER
             then Inr (1, t2, ic2c - 1)
             else Inr (1, t2, ic2c))"

text \<open>
  \<open>second_pass\<close> for one line. \<open>type2\<close> starts at 0, which is \<open>INSTRUCTION\<close>. An
  instruction line hands the text after the opcode to \<open>instruction_uptade_address\<close>;
  with no such text (\<open>rts\<close>, \<open>stop\<close>) nothing is called and \<open>ic2\<close> stays. A line whose
  kind is \<open>DIRECTIVE\<close> and whose first word is not a label has the last character of that
  word cut off and the rest looked up by \<open>search_and_update\<close>.
\<close>

definition second_pass :: "string \<Rightarrow> tables \<Rightarrow> int \<Rightarrow> int \<Rightarrow> fault + int \<times> tables \<times> int" where
  "second_pass str t ic2 cl =
     (let delimiters = [CHR '' '', CHR '','', TAB];
          (word1, rest) = strtok str delimiters;
          word2 = fst (strtok rest delimiters);
          (type1, t1) = which_type word1 t cl NOT_UPDATE;
          (type2, t2) = (if word2 \<noteq> None then which_type word2 t1 cl NOT_UPDATE else (0, t1));
          ty = (if type1 = - 1 then type2 else type1)
      in if ty = INSTRUCTION then
           (case (if is_label word1
                  then (case string_without_first_word str delimiters of
                          None \<Rightarrow> Inl Undefined
                        | Some w \<Rightarrow> Inr (string_without_first_word w delimiters))
                  else Inr (string_without_first_word str [CHR '' '', TAB])) of
              Inl f \<Rightarrow> Inl f
            | Inr str1 \<Rightarrow>
                if str1 = Some ''EXIT'' then Inl Exit
                else (case str1 of
                        None \<Rightarrow> Inr (1, t2, ic2)
                      | Some s1 \<Rightarrow> instruction_uptade_address s1 t2 ic2 cl))
         else if ty = DIRECTIVE \<and> \<not> is_label word1 then
           (case search_and_update (Some (butlast (the word1))) t2 ic2 cl of
              Inl f \<Rightarrow> Inl f
            | Inr (_, t3) \<Rightarrow> Inr (1, t3, ic2))
         else if ty = EXTERN \<or> ty = ENTRY then Inr (1, t2, ic2)
         else Inr (0, t2, ic2))"

text \<open>
  \<open>passes\<close> on the lines \<open>read_file\<close> returned (\<open>NULL\<close>, hence \<open>EXIT\<close>, for a file without
  lines): the first pass over every line that is neither blank nor a comment, the
  relocation of the labels, and the second pass over the same lines with \<open>ic2\<close> from 0.
\<close>

definition skipped_line :: "string \<Rightarrow> bool" where
  "skipped_line l = (only_spaces_and_tabs l \<or> char_at l 0 = CHR '';'')"

fun first_pass_lines :: "string list \<Rightarrow> int \<Rightarrow> tables \<Rightarrow> string list \<Rightarrow> fault + tables" where
  "first_pass_lines [] i t macros = Inr t"
| "first_pass_lines (l # ls) i t macros =
     (if skipped_line l then first_pass_lines ls (i + 1) t macros
      else (case first_pass l t macros i of
              Inl f \<Rightarrow> Inl f
            | Inr (_, t1) \<Rightarrow> first_pass_lines ls (i + 1) t1 macros))"

fun second_pass_lines :: "string list \<Rightarrow> int \<Rightarrow> tables \<Rightarrow> int \<Rightarrow> fault + tables \<times> int" where
  "second_pass_lines [] i t ic2 = Inr (t, ic2)"
| "second_pass_lines (l # ls) i t ic2 =
     (if skipped_line l then second_pass_lines ls (i + 1) t ic2
      else (case second_pass l t ic2 i of
              Inl f \<Rightarrow> Inl f
            | Inr (_, t1, ic2') \<Rightarrow> second_pass_lines ls (i + 1) t1 ic2'))"

definition passes :: "string list \<Rightarrow> tables \<Rightarrow> string list \<Rightarrow> result" where
  "passes command t macros =
     (if command = [] then Inl Exit
      else (case first_pass_lines command 0 t macros of
              Inl f \<Rightarrow> Inl f
            | Inr t1 \<Rightarrow>
                (case second_pass_lines command 0
                        (t1\<lparr>labeltable := index_update (labeltable t1) (ic t1)\<rparr>) 0 of
                   Inl f \<Rightarrow> Inl f
                 | Inr (t2, _) \<Rightarrow> Inr (1, t2))))"

text \<open>
  The property of the external uses while the second pass is at \<open>ic2\<close>: every recorded
  use lies at or below \<open>ic2\<close>, and the word it names is an address word with address 0
  and tag \<open>EXTERNAL\<close>.
\<close>

definition external_uses_tagged :: "tables \<Rightarrow> int \<Rightarrow> bool" where
  "external_uses_tagged t ic2 =
     (\<forall>e \<in> set (extable t).
        ex_index e - MEMORY_START \<le> ic2
        \<and> instable t (ex_index e - MEMORY_START) = Address 0 (word_of_int EXTERNAL))"

subsection \<open>The end of \<open>main\<close> for one input file (assembler.c)\<close>

text \<open>
  Modelled from the spec: the suffix macros of assembler.h, which is not among the source
  files. The specification names the expanded source \<open>.am\<close> and the artifacts \<open>.ob\<close>,
  \<open>.ent\<close> and \<open>.ext\<close>.
\<close>

definition END_OF_MACRO_FILE_NAME :: string where "END_OF_MACRO_FILE_NAME = ''.am''"
definition END_OBJECT_FILE_NAME :: string where "END_OBJECT_FILE_NAME = ''.ob''"
definition END_EN_FILE_NAME :: string where "END_EN_FILE_NAME = ''.ent''"
definition END_EX_FILE_NAME :: string where "END_EX_FILE_NAME = ''.ext''"

text \<open>
  The file system is the set of the names of the files that exist. \<open>print_extern\<close>,
  \<open>print_entry\<close> and \<open>print_object\<close> open their file for writing, which creates it, or
  return \<open>EXIT\<close> when \<open>fopen\<close> fails; \<open>fopen_ok\<close> says for which names it succeeds.
  \<open>remove\<close> deletes the name (a file that is not there only makes \<open>main\<close> print a
  message).
\<close>

definition print_file :: "(string \<Rightarrow> bool) \<Rightarrow> string \<Rightarrow> string set \<Rightarrow> fault + string set" where
  "print_file fopen_ok fname fs = (if fopen_ok fname then Inr (insert fname fs) else Inl Exit)"

text \<open>
  \<open>main\<close> from the return of \<open>passes\<close> to the end of the loop body (lines 102 to 141):
  the check of the image size, then either the report of the diagnostics and the removal
  of the expanded source, or the three artifacts in the order \<open>.ext\<close>, \<open>.ent\<close>, \<open>.ob\<close>.
  The result is the fault that sends \<open>main\<close> to \<open>cleanup\<close>, if any, the tables and the file
  system.
\<close>

definition main_after_passes :: "(string \<Rightarrow> bool) \<Rightarrow> string \<Rightarrow> tables \<Rightarrow> string set \<Rightarrow> fault option \<times> tables \<times> string set" where
  "main_after_passes fopen_ok nametmp t fs =
     (let t1 = (if ic t + dc t > 156 then add_error t 0 '': the memory is over'' else t)
      in if ec t1 > 0
         then (None, t1, fs - {nametmp @ END_OF_MACRO_FILE_NAME})
         else (case (if exc t1 > 0 then print_file fopen_ok (nametmp @ END_EX_FILE_NAME) fs
                     else Inr fs) of
                 Inl f \<Rightarrow> (Some f, t1, fs)
               | Inr fs1 \<Rightarrow>
                   (case (if have_entry (labeltable t1)
                          then print_file fopen_ok (nametmp @ END_EN_FILE_NAME) fs1
                          else Inr fs1) of
                      Inl f \<Rightarrow> (Some f, t1, fs1)
                    | Inr fs2 \<Rightarrow>
                        (case print_file fopen_ok (nametmp @ END_OBJECT_FILE_NAME) fs2 of
                           Inl f \<Rightarrow> (Some f, t1, fs2)
                         | Inr fs3 \<Rightarrow> (None, t1, fs3)))))"

definition artifact_names :: "string \<Rightarrow> string set" where
  "artifact_names nametmp =
     {nametmp @ END_OBJECT_FILE_NAME, nametmp @ END_EN_FILE_NAME, nametmp @ END_EX_FILE_NAME}"

section \<open>Properties of the program\<close>

subsection \<open>Counters under the table operations\<close>

lemma ec_add_error: "ec (add_error t l m) = ec t + 1"
  by (simp add: ec_def add_error_def)

lemma ec_nonneg: "0 \<le> ec t"
  by (simp add: ec_def)

lemma ec_add_ins: "ec (add_ins t r v a b c d) = ec t"
  by (simp add: ec_def add_ins_def)

lemma ic_add_ins: "ic (add_ins t r v a b c d) = ic t + 1"
  by (simp add: add_ins_def)

lemma ic_add_error: "ic (add_error t l m) = ic t"
  by (simp add: add_error_def)

text \<open>Sums that stay between \<open>INT_MIN\<close> and \<open>INT_MAX\<close> do not wrap.\<close>

lemma wrap_int_id: "- (2 ^ 31) \<le> v \<Longrightarrow> v < 2 ^ 31 \<Longrightarrow> wrap_int v = v"
  by (simp add: wrap_int_def)

subsection \<open>The error gate of \<open>main\<close>\<close>

text \<open>
  Claim C1. Once both passes have returned, \<open>main\<close> adds the diagnostic for
  \<open>ic + dc > 156\<close> and looks at the diagnostic count. When the count is positive the
  file system afterwards is the one before without the expanded source \<open>.am\<close>: nothing
  is written, and \<open>main\<close> does not go to \<open>cleanup\<close>. Whenever a file has been created,
  the count is zero and the file is one of \<open>.ob\<close>, \<open>.ent\<close>, \<open>.ext\<close>.
\<close>

theorem no_emission_on_error:
  "(case main_after_passes fopen_ok nametmp t fs of
      (fatal, t', fs') \<Rightarrow>
        ec t' = ec t + (if ic t + dc t > 156 then 1 else 0)
        \<and> (ec t' > 0 \<longrightarrow> fatal = None \<and> fs' = fs - {nametmp @ END_OF_MACRO_FILE_NAME})
        \<and> (fs' - fs \<noteq> {} \<longrightarrow> ec t' = 0 \<and> fs' - fs \<subseteq> artifact_names nametmp))"
proof -
  define t1 where "t1 = (if ic t + dc t > 156 then add_error t 0 '': the memory is over'' else t)"
  have ec1: "ec t1 = ec t + (if ic t + dc t > 156 then 1 else 0)"
    by (simp add: t1_def ec_add_error)
  show ?thesis
  proof (cases "ec t1 > 0")
    case True
    then have "main_after_passes fopen_ok nametmp t fs
                 = (None, t1, fs - {nametmp @ END_OF_MACRO_FILE_NAME})"
      unfolding main_after_passes_def Let_def t1_def [symmetric] by simp
    with True ec1 show ?thesis by auto
  next
    case False
    with ec_nonneg [of t1] have z: "ec t1 = 0" by simp
    obtain fatal t' fs' where r: "main_after_passes fopen_ok nametmp t fs = (fatal, t', fs')"
      by (cases "main_after_passes fopen_ok nametmp t fs") auto
    from r False have "t' = t1 \<and> fs' - fs \<subseteq> artifact_names nametmp"
      unfolding main_after_passes_def Let_def t1_def [symmetric]
      by (auto simp: print_file_def artifact_names_def split: if_splits sum.splits)
    with r z ec1 show ?thesis by auto
  qed
qed

theorem no_emission_on_error_witness:
  "ec (add_error allocated_tables 3 ''x'') > 0
   \<and> fst (main_after_passes (\<lambda>_. True) ''prog'' (add_error allocated_tables 3 ''x'')
           {''prog.am'', ''prog.as''}) = None
   \<and> snd (snd (main_after_passes (\<lambda>_. True) ''prog'' (add_error allocated_tables 3 ''x'')
           {''prog.am'', ''prog.as''})) = {''prog.as''}"
proof -
  let ?t = "add_error allocated_tables 3 ''x''"
  let ?fs = "{''prog.am'', ''prog.as''}"
  have pos: "ec ?t > 0"
    using ec_nonneg [of allocated_tables] by (simp add: ec_add_error)
  obtain fatal t' fs' where r: "main_after_passes (\<lambda>_. True) ''prog'' ?t ?fs = (fatal, t', fs')"
    by (rule prod_cases3)
  from no_emission_on_error [where fopen_ok = "\<lambda>_. True" and nametmp = "''prog''" and t = ?t
         and fs = ?fs] r
  have grow: "ec t' = ec ?t + (if ic ?t + dc ?t > 156 then 1 else 0)"
    and gate: "ec t' > 0 \<longrightarrow> fatal = None \<and> fs' = ?fs - {''prog'' @ END_OF_MACRO_FILE_NAME}"
    by simp_all
  from grow pos have "ec t' > 0" by (simp split: if_splits)
  with gate have "fatal = None" and fs: "fs' = ?fs - {''prog'' @ END_OF_MACRO_FILE_NAME}"
    by simp_all
  have "?fs - {''prog'' @ END_OF_MACRO_FILE_NAME} = {''prog.as''}"
    by (simp add: END_OF_MACRO_FILE_NAME_def)
  with pos r \<open>fatal = None\<close> fs show ?thesis by simp
qed

subsection \<open>Relocation of the labels\<close>

lemma index_update_nth:
  assumes "i < length ls"
  shows "index_update ls IC ! i =
      (if type (ls ! i) = DIRECTIVE
       then (ls ! i)\<lparr>index' := wrap_int (wrap_int (index' (ls ! i) + IC) + MEMORY_START)\<rparr>
       else if type (ls ! i) = INSTRUCTION
       then (ls ! i)\<lparr>index' := wrap_int (index' (ls ! i) + MEMORY_START)\<rparr>
       else ls ! i)"
  using assms by (simp add: index_update_def)

text \<open>
  Claim C2, label by label. \<open>index_update\<close> keeps the table's length and every label's
  name, type and \<open>en\<close> mark. A label is a Code symbol when its type is \<open>INSTRUCTION\<close> and
  a Data symbol when its type is \<open>DIRECTIVE\<close>. With counters \<open>IC\<close> and \<open>DC\<close> that are not
  negative and with \<open>IC + DC + MEMORY_START\<close> at most \<open>INT_MAX\<close>, every Code symbol whose
  index lies in \<open>[0, IC)\<close> gets \<open>MEMORY_START\<close> added to its index, which then lies in
  \<open>[100, 100 + IC)\<close>, and every Data symbol whose index lies in \<open>[0, DC)\<close> gets
  \<open>IC + MEMORY_START\<close> added, so that its index then lies in \<open>[100 + IC, 100 + IC + DC)\<close>.
  Nothing is asked of the other labels of the table.
\<close>

theorem index_update_ranges:
  assumes "i < length ls"
    and "0 \<le> IC" and "0 \<le> DC" and "IC + DC + MEMORY_START \<le> 2147483647"
  shows "length (index_update ls IC) = length ls
         \<and> name (index_update ls IC ! i) = name (ls ! i)
         \<and> type (index_update ls IC ! i) = type (ls ! i)
         \<and> en (index_update ls IC ! i) = en (ls ! i)
         \<and> (type (ls ! i) = INSTRUCTION \<and> 0 \<le> index' (ls ! i) \<and> index' (ls ! i) < IC \<longrightarrow>
               index' (index_update ls IC ! i) = index' (ls ! i) + MEMORY_START
               \<and> 100 \<le> index' (index_update ls IC ! i)
               \<and> index' (index_update ls IC ! i) < 100 + IC)
         \<and> (type (ls ! i) = DIRECTIVE \<and> 0 \<le> index' (ls ! i) \<and> index' (ls ! i) < DC \<longrightarrow>
               index' (index_update ls IC ! i) = index' (ls ! i) + IC + MEMORY_START
               \<and> 100 + IC \<le> index' (index_update ls IC ! i)
               \<and> index' (index_update ls IC ! i) < 100 + IC + DC)"
proof (intro conjI impI)
  note nth = index_update_nth [OF assms(1), of IC]
  show "length (index_update ls IC) = length ls" by (simp add: index_update_def)
  show "name (index_update ls IC ! i) = name (ls ! i)" by (simp add: nth)
  show "type (index_update ls IC ! i) = type (ls ! i)" by (simp add: nth)
  show "en (index_update ls IC ! i) = en (ls ! i)" by (simp add: nth)
  { assume c: "type (ls ! i) = INSTRUCTION \<and> 0 \<le> index' (ls ! i) \<and> index' (ls ! i) < IC"
    then have nd: "type (ls ! i) \<noteq> DIRECTIVE" by (simp add: INSTRUCTION_def DIRECTIVE_def)
    from c assms(3,4) have "- (2 ^ 31) \<le> index' (ls ! i) + MEMORY_START"
      "index' (ls ! i) + MEMORY_START < 2 ^ 31"
      by (simp_all add: MEMORY_START_def)
    then have w: "wrap_int (index' (ls ! i) + MEMORY_START) = index' (ls ! i) + MEMORY_START"
      by (rule wrap_int_id)
    from c nd w show "index' (index_update ls IC ! i) = index' (ls ! i) + MEMORY_START"
      by (simp add: nth)
    from c nd w show "100 \<le> index' (index_update ls IC ! i)"
      by (simp add: nth MEMORY_START_def)
    from c nd w show "index' (index_update ls IC ! i) < 100 + IC"
      by (simp add: nth MEMORY_START_def) }
  { assume d: "type (ls ! i) = DIRECTIVE \<and> 0 \<le> index' (ls ! i) \<and> index' (ls ! i) < DC"
    from d assms(2,4) have "- (2 ^ 31) \<le> index' (ls ! i) + IC" "index' (ls ! i) + IC < 2 ^ 31"
      by (simp_all add: MEMORY_START_def)
    then have w1: "wrap_int (index' (ls ! i) + IC) = index' (ls ! i) + IC"
      by (rule wrap_int_id)
    from d assms(2,4) have "- (2 ^ 31) \<le> index' (ls ! i) + IC + MEMORY_START"
      "index' (ls ! i) + IC + MEMORY_START < 2 ^ 31"
      by (simp_all add: MEMORY_START_def)
    then have w2: "wrap_int (index' (ls ! i) + IC + MEMORY_START) = index' (ls ! i) + IC + MEMORY_START"
      by (rule wrap_int_id)
    from d w1 w2 show "index' (index_update ls IC ! i) = index' (ls ! i) + IC + MEMORY_START"
      by (simp add: nth)
    from d w1 w2 show "100 + IC \<le> index' (index_update ls IC ! i)"
      by (simp add: nth MEMORY_START_def)
    from d w1 w2 show "index' (index_update ls IC ! i) < 100 + IC + DC"
      by (simp add: nth MEMORY_START_def) }
qed

text \<open>
  The theorem at the table that \<open>.extern X\<close> and \<open>L: .data 5\<close> leave, with \<open>IC = 0\<close> and
  \<open>DC = 1\<close>: the Data symbol \<open>L\<close> moves from 0 to 100; and at a Code symbol of a table
  with \<open>IC = 5\<close>.
\<close>

theorem index_update_ranges_witness:
  "index' (index_update [\<lparr>name = ''X'', type = 0, index' = 0, en = EXTERN\<rparr>,
                         \<lparr>name = ''L'', type = DIRECTIVE, index' = 0, en = 0\<rparr>] 0 ! 1) = 100
   \<and> index' (index_update [\<lparr>name = ''MAIN'', type = INSTRUCTION, index' = 3, en = 0\<rparr>,
                           \<lparr>name = ''LIST'', type = DIRECTIVE, index' = 2, en = ENTRY\<rparr>] 5 ! 0) = 103
   \<and> index' (index_update [\<lparr>name = ''MAIN'', type = INSTRUCTION, index' = 3, en = 0\<rparr>,
                           \<lparr>name = ''LIST'', type = DIRECTIVE, index' = 2, en = ENTRY\<rparr>] 5 ! 1) = 107"
proof -
  let ?a = "[\<lparr>name = ''X'', type = 0, index' = 0, en = EXTERN\<rparr>,
             \<lparr>name = ''L'', type = DIRECTIVE, index' = 0, en = 0\<rparr>]"
  let ?b = "[\<lparr>name = ''MAIN'', type = INSTRUCTION, index' = 3, en = 0\<rparr>,
             \<lparr>name = ''LIST'', type = DIRECTIVE, index' = 2, en = ENTRY\<rparr>]"
  have a: "(1::nat) < length ?a" "(0::int) \<le> 0" "(0::int) \<le> 1" "0 + 1 + MEMORY_START \<le> 2147483647"
    by (simp_all add: MEMORY_START_def)
  have b0: "(0::nat) < length ?b" and b1: "(1::nat) < length ?b"
    and b: "(0::int) \<le> 5" "(0::int) \<le> 3" "5 + 3 + MEMORY_START \<le> 2147483647"
    by (simp_all add: MEMORY_START_def)
  from index_update_ranges [OF a]
  have "index' (index_update ?a 0 ! 1) = 100"
    by (simp add: DIRECTIVE_def INSTRUCTION_def MEMORY_START_def)
  moreover from index_update_ranges [OF b0 b]
  have "index' (index_update ?b 5 ! 0) = 103"
    by (simp add: DIRECTIVE_def INSTRUCTION_def MEMORY_START_def)
  moreover from index_update_ranges [OF b1 b]
  have "index' (index_update ?b 5 ! 1) = 107"
    by (simp add: DIRECTIVE_def INSTRUCTION_def MEMORY_START_def)
  ultimately show ?thesis by simp
qed

subsection \<open>Instruction lines\<close>

text \<open>
  The \<open>lea\<close> branch of \<open>word\<close>: after the check that both operands are present, the
  \<open>if\<close> on the addressing modes ends in a semicolon, so the command word is appended and
  1 is returned whatever the modes are; the \<open>add_error\<close> behind the block is never
  reached. The check of the modes therefore rejects no \<open>lea\<close> line.
\<close>

lemma word_lea:
  assumes "operand1 \<noteq> NO_OPERAND" and "operand2 \<noteq> NO_OPERAND"
  shows "word ''lea'' operand1 operand2 t cl
           = (1, add_ins t RECORD_TYPE_COMMAND LEA operand1 operand2 0 0)"
  using assms by (simp add: word_def OPERAND_2_CHECK_def SET_OPCODE_2_AND_TYPE2_def)

text \<open>
  Claim C6. A \<open>lea\<close> line with a source operand of mode Matrix and a destination operand
  of mode Register that the first pass does not accept without a diagnostic. The label
  \<open>MY_MAT\<close> is a valid label for \<open>valid_label\<close>, which allows the underscore in a name,
  and \<open>which_type_operand\<close> gives \<open>MY_MAT[r1][r2]\<close> the mode \<open>MATRIX\<close> and \<open>r3\<close> the mode
  \<open>REGISTER\<close>. On the line \<open>lea MY_MAT[r1][r2], r3\<close> the command word is appended, but
  \<open>is_valid_matrix\<close> scans the name with \<open>isalnum\<close>, stops at the underscore and finds no
  bracket there: \<open>update\<close> records the diagnostic \<open>Invalid matrix\<close> and appends no word
  for the matrix operand, so that \<open>ic\<close> ends at 2, the command word and the register
  word, where the line takes 4 words.
\<close>

theorem lea_underscore_matrix_rejected:
  "fst (valid_label ''MY_MAT'' allocated_tables [] 0) = 1
   \<and> instruction_operands ''lea MY_MAT[r1][r2], r3'' = (Some ''MY_MAT[r1][r2]'', Some '' r3'')
   \<and> which_type_operand (Some ''MY_MAT[r1][r2]'') = MATRIX
   \<and> which_type_operand (Some '' r3'') = REGISTER
   \<and> (case instruction ''lea MY_MAT[r1][r2], r3'' allocated_tables 0 of
        Inl f \<Rightarrow> False
      | Inr (r, t) \<Rightarrow>
          r = 1 \<and> ic t = 2
          \<and> map error.error (errortable t) = ['': error! Invalid matrix'']
          \<and> instable t 0 = Command 4 10 11 0
          \<and> instable t 1 = Register 0 3 0)"
  by code_simp

text \<open>
  What each step of \<open>instruction\<close> does to the diagnostic count and to \<open>ic\<close>: a step
  either records a diagnostic or appends the words of its part of the line.
\<close>

lemma parse_ops_cases:
  assumes "parse_ops ops t lc = (v, t1)"
  shows "(v = 0 \<and> ec t1 = ec t + 1) \<or> (v = 1 \<and> t1 = t)"
  using assms
  by (auto simp: parse_ops_def Let_def ec_add_error split: option.splits if_splits)

lemma word_cases:
  assumes "word w o1 o2 t cl = (v, t2)"
  shows "(v = 0 \<and> ec t2 = ec t + 1 \<and> ic t2 = ic t)
         \<or> (v = 0 \<and> t2 = t \<and> w \<notin> set opcode_names)
         \<or> (v = 1 \<and> ec t2 = ec t \<and> ic t2 = ic t + 1)"
  using assms
  by (auto simp: word_def two_operand_word_def one_operand_word_def zero_operand_word_def
        OPERAND_2_CHECK_def OPERAND_1_CHECK_def OPERAND_0_CHECK_def IMMEDIATE_IS_ERROR_def
        SET_OPCODE_2_AND_TYPE2_def SET_OPCODE_1_AND_TYPE1_def SET_OPCODE_0_AND_TYPE0_def
        ec_add_error ec_add_ins ic_add_ins ic_add_error opcode_names_def
      split: if_splits)

lemma is_valid_matrix_cases:
  assumes "is_valid_matrix s t lc = (v, t1)"
  shows "(v = 1 \<and> t1 = t) \<or> (ec t1 = ec t + 1 \<and> ic t1 = ic t)"
  using assms
  by (auto simp: is_valid_matrix_def Let_def ec_add_error ic_add_error split: if_splits)

lemma update_cases:
  assumes "update w1 w2 o1 o2 t lc = Inr (v, t3)"
  shows "(ec t3 = ec t + 1) \<or> (ec t3 = ec t \<and> ic t3 = ic t + words_for o1 \<and> o1 \<noteq> NO_OPERAND)"
proof -
  obtain vm tm where vm: "is_valid_matrix w1 t lc = (vm, tm)" by (cases "is_valid_matrix w1 t lc")
  from is_valid_matrix_cases [OF vm] assms vm show ?thesis
    by (auto simp: update_def Let_def words_for_def ec_add_error ec_add_ins ic_add_ins ic_add_error
          IMMEDIATE_def DIRECT_def MATRIX_def REGISTER_def NO_OPERAND_def
        split: if_splits option.splits prod.splits)
qed

lemma which_type_operand_None: "which_type_operand None = NO_OPERAND"
  by (simp add: which_type_operand_def)

text \<open>
  The word count of an accepted instruction line. A line that \<open>instruction\<close> takes without
  recording a diagnostic grows \<open>ic\<close> by one word for the command plus the words of its
  two operand slots, one less when both are registers, provided the line is not of the
  shape "first slot empty, second slot filled". That shape is the subject of claim C4
  below.
\<close>

lemma instruction_word_count:
  assumes run: "instruction str t lc = Inr (r, t')"
    and acc: "ec t' = ec t"
    and opc: "fst (strtok str [CHR '' '', CHR '','', TAB]) = Some w" "w \<in> set opcode_names"
    and ops: "instruction_operands str = (src, dst)"
    and ord: "\<not> (which_type_operand src = NO_OPERAND \<and> which_type_operand dst \<noteq> NO_OPERAND)"
  shows "ic t' = ic t + 1 + words_for (which_type_operand src) + words_for (which_type_operand dst)
                 - (if which_type_operand src = REGISTER \<and> which_type_operand dst = REGISTER
                    then 1 else 0)"
proof -
  let ?d = "[CHR '' '', CHR '','', TAB]"
  obtain word1 rest1 where s1: "strtok str ?d = (word1, rest1)" by force
  obtain word2 rest2 where s2: "strtok rest1 [CHR '',''] = (word2, rest2)" by force
  obtain word3 rest3 where s3: "strtok rest2 [CHR '',''] = (word3, rest3)" by force
  from ops s1 s2 s3 have sd: "src = word2" "dst = word3"
    by (simp_all add: instruction_operands_def)
  from opc s1 have w1: "word1 = Some w" by simp
  let ?o1 = "which_type_operand word2" and ?o2 = "which_type_operand word3"
  let ?tmp = "string_without_first_word str ?d"
  obtain pv t1 where p: "parse_ops ?tmp t lc = (pv, t1)" by force
  obtain v2 t2 where wd: "word w ?o1 ?o2 t1 lc = (v2, t2)" by force
  from run s1 s2 s3 have noexit: "?tmp \<noteq> Some ''EXIT''"
    by (auto simp: instruction_def Let_def split: if_splits)
  have w4: "fst (strtok rest3 ?d) = None"
  proof (rule ccontr)
    assume "fst (strtok rest3 ?d) \<noteq> None"
    with run s1 s2 s3 noexit have "t' = add_error t lc '': error! More operands than allowed''"
      by (simp add: instruction_def Let_def)
    with acc show False by (simp add: ec_add_error)
  qed
  have pv1: "pv = 1 \<and> t1 = t"
  proof -
    from parse_ops_cases [OF p] show ?thesis
    proof
      assume a: "pv = 0 \<and> ec t1 = ec t + 1"
      with run s1 s2 s3 noexit w4 p have "t' = t1"
        by (simp add: instruction_def Let_def)
      with a acc show ?thesis by simp
    qed simp
  qed
  have core: "(case (if word2 \<noteq> None \<and> ?o1 \<noteq> NO_OPERAND
                     then update (the word2) word3 ?o1 ?o2 t2 lc else Inr (1, t2)) of
                Inl f \<Rightarrow> Inl f
              | Inr (_, t3) \<Rightarrow>
                  if ?o1 = REGISTER \<and> ?o2 = REGISTER then Inr (1, t3)
                  else if word3 \<noteq> None \<and> ?o1 \<noteq> NO_OPERAND
                  then (case update (the word3) None ?o2 0 t3 lc of
                          Inl f \<Rightarrow> Inl f | Inr (_, t4) \<Rightarrow> Inr (1, t4))
                  else Inr (1, t3)) = Inr (r, t') \<and> v2 = 1 \<and> ec t2 = ec t \<and> ic t2 = ic t + 1"
  proof -
    from word_cases [OF wd] opc(2) pv1
    consider (err) "v2 = 0" "ec t2 = ec t + 1" | (ok) "v2 = 1" "ec t2 = ec t" "ic t2 = ic t + 1"
      by auto
    then show ?thesis
    proof cases
      case err
      with run s1 s2 s3 noexit w4 p pv1 w1 wd have "t' = t2"
        by (simp add: instruction_def Let_def)
      with err acc show ?thesis by simp
    next
      case ok
      with run s1 s2 s3 noexit w4 p pv1 w1 wd show ?thesis
        by (simp add: instruction_def Let_def)
    qed
  qed
  then have t2: "ec t2 = ec t" "ic t2 = ic t + 1" by simp_all
  show ?thesis
  proof (cases "word2 \<noteq> None \<and> ?o1 \<noteq> NO_OPERAND")
    case False
    then have o1: "?o1 = NO_OPERAND" by (auto simp: which_type_operand_None)
    with ord sd have o2: "?o2 = NO_OPERAND" by simp
    from core False o1 o2 have "t' = t2"
      by (auto simp: REGISTER_def NO_OPERAND_def split: if_splits)
    with t2 o1 o2 sd show ?thesis
      by (simp add: words_for_def NO_OPERAND_def MATRIX_def IMMEDIATE_def DIRECT_def REGISTER_def)
  next
    case True
    with core obtain u3 t3 where u1: "update (the word2) word3 ?o1 ?o2 t2 lc = Inr (u3, t3)"
      by (auto split: sum.splits)
    from update_cases [OF u1]
    have m3: "ec t3 = ec t2 + 1 \<or> (ec t3 = ec t2 \<and> ic t3 = ic t2 + words_for ?o1)" by blast
    show ?thesis
    proof (cases "?o1 = REGISTER \<and> ?o2 = REGISTER")
      case both: True
      with core True u1 have "t' = t3" by simp
      with m3 acc t2 both sd show ?thesis
        by (auto simp: words_for_def MATRIX_def REGISTER_def)
    next
      case nb: False
      show ?thesis
      proof (cases "word3 \<noteq> None")
        case False
        then have o2: "?o2 = NO_OPERAND" by (simp add: which_type_operand_None)
        from core True u1 nb False have "t' = t3" by simp
        with m3 acc t2 o2 sd show ?thesis
          by (auto simp: words_for_def NO_OPERAND_def MATRIX_def IMMEDIATE_def DIRECT_def REGISTER_def)
      next
        case w3: True
        with core True u1 nb obtain u4 where u2: "update (the word3) None ?o2 0 t3 lc = Inr (u4, t')"
          by (auto split: sum.splits)
        from update_cases [OF u2]
        have m4: "ec t' = ec t3 + 1 \<or> (ec t' = ec t3 \<and> ic t' = ic t3 + words_for ?o2)" by blast
        from m3 m4 acc t2 have "ic t' = ic t + 1 + words_for ?o1 + words_for ?o2"
          by arith
        with nb sd show ?thesis by simp
      qed
    qed
  qed
qed

lemma instruction_word_count_example:
  "(case instruction ''lea M[r1][r2], r3'' allocated_tables 0 of
      Inr (r, t) \<Rightarrow> ec t = 0 \<and> ic t = 1 + 2 + 1 | Inl f \<Rightarrow> False)
   \<and> (case instruction ''mov r1, r2'' allocated_tables 0 of
      Inr (r, t) \<Rightarrow> ec t = 0 \<and> ic t = 1 + 1 + 1 - 1 | Inl f \<Rightarrow> False)"
  by code_simp

text \<open>
  Claim C4, at the failing input. On the line \<open>inc  ,r1\<close> (two blanks before the comma)
  the second \<open>strtok\<close> returns the blank between the opcode and the comma and the third
  returns \<open>r1\<close>, so the first operand slot is \<open>NO_OPERAND\<close> and the second is
  \<open>REGISTER\<close>; \<open>parse_ops\<close> sees only \<open>r1\<close>. The line is accepted: \<open>instruction\<close>
  returns 1 and records nothing. Only the command word is appended, \<open>ic\<close> grows by 1
  where the count of the claim is 2, and the destination field of the command word holds
  \<open>NO_OPERAND\<close>.
\<close>

theorem stray_comma_line_short:
  "instruction_operands ''inc  ,r1'' = (Some '' '', Some ''r1'')
   \<and> which_type_operand (Some '' '') = NO_OPERAND
   \<and> which_type_operand (Some ''r1'') = REGISTER
   \<and> 1 + words_for NO_OPERAND + words_for REGISTER = 2
   \<and> (case instruction ''inc  ,r1'' allocated_tables 0 of
        Inr (r, t) \<Rightarrow>
          r = 1 \<and> errortable t = [] \<and> ic t = 1
          \<and> instable t 0 = Command (word_of_int INC) 0 (word_of_int NO_OPERAND) 0
      | Inl f \<Rightarrow> False)"
  by code_simp

text \<open>
  The classifier in closed form: \<open>REGISTER\<close> is returned exactly when the text, after its
  leading white space, begins with \<open>r\<close> and a digit from 0 to 7. Nothing is asked of what
  follows.
\<close>

lemma which_type_operand_register_iff:
  "which_type_operand (Some s) = REGISTER \<longleftrightarrow>
     \<not> only_spaces_and_tabs s
     \<and> (let rest = dropWhile isspace_c s
        in char_at rest 0 = CHR ''r'' \<and> 48 \<le> char_code (char_at rest 1) \<and> char_code (char_at rest 1) \<le> 55)"
proof -
  have at: "char_at s (length (takeWhile isspace_c s) + k) = char_at (dropWhile isspace_c s) k" for k
    using length_takeWhile_le [of isspace_c s] by (auto simp: char_at_def dropWhile_eq_drop)
  show ?thesis
    using at [of 0] at [of 1]
    by (simp add: which_type_operand_def Let_def REGISTER_def NO_OPERAND_def IMMEDIATE_def
          MATRIX_def DIRECT_def)
qed

text \<open>
  Claim C9, at the failing input. The operand \<open>r1x\<close> is classified \<open>REGISTER\<close>, although
  something follows the digit; \<open>r1x\<close> is no reserved word, so it can be a label.
\<close>

theorem register_prefix_is_register:
  "which_type_operand (Some ''r1x'') = REGISTER \<and> \<not> is_reserved_word ''r1x''"
  by code_simp

subsection \<open>The matrix directive\<close>

text \<open>
  The padding loop, entered with \<open>num\<close> values present, appends \<open>cells + 1 - num\<close> zero
  words.
\<close>

lemma mat_padding_count:
  "datatable (mat_padding num cells t) = datatable t @ replicate (nat (cells + 1 - num)) 0"
proof -
  have "datatable (((\<lambda>t. add_data t 0) ^^ n) t) = datatable t @ replicate n 0" for n
    by (induction n) (simp_all add: add_data_def replicate_append_same)
  then show ?thesis by (simp add: mat_padding_def)
qed

text \<open>
  Claim C7, at the failing input. \<open>.mat [2][2] 1,2\<close> hands \<open>[2][2] 1,2\<close> to
  \<open>mat_update\<close>. It is accepted without a diagnostic and five words are appended to the
  data image, the two values and three zero words, where the claim has four.
\<close>

theorem mat_padding_one_extra:
  "(case mat_update ''[2][2] 1,2'' allocated_tables 0 of
      Inr (r, t) \<Rightarrow> r = 1 \<and> errortable t = [] \<and> datatable t = [1, 2, 0, 0, 0]
    | Inl f \<Rightarrow> False)"
  by code_simp

subsection \<open>Entry declarations\<close>

text \<open>
  In a table where exactly one label has the name and that label is marked \<open>EXTERN\<close>,
  \<open>search_entery_and_update\<close> records the diagnostic and changes the mark to \<open>ENTRY\<close>.
\<close>

lemma search_entery_loop_no_match:
  "\<forall>x \<in> set ls. name x \<noteq> str \<Longrightarrow> search_entery_loop ls str errs cl = (ls, False, errs)"
  by (induction ls) simp_all

lemma search_entery_loop_extern:
  assumes "name l = str" and "en l = EXTERN"
    and "\<forall>x \<in> set pre. name x \<noteq> str" and "\<forall>x \<in> set post. name x \<noteq> str"
  shows "search_entery_loop (pre @ l # post) str errs cl
           = (pre @ l # post, False,
              errs @ [\<lparr>error = '': error! invalid enternal label'', line = cl\<rparr>])"
  using assms(3)
proof (induction pre)
  case Nil
  from assms(1,2,4) show ?case
    by (simp add: search_entery_loop_no_match)
next
  case (Cons p pre)
  then show ?case by simp
qed

lemma search_label_entry_marks:
  assumes "name l = str" and "\<forall>x \<in> set pre. name x \<noteq> str"
  shows "search_label (pre @ l # post) str ENTRY a b = (pre @ l\<lparr>en := ENTRY\<rparr> # post, True)"
  using assms(2)
proof (induction pre)
  case Nil
  from assms(1) show ?case by (simp add: ENTRY_def EXTERN_def)
next
  case (Cons p pre)
  then show ?case by simp
qed

lemma entry_of_extern_in_general:
  assumes tab: "labeltable t = pre @ l # post" and l: "name l = str" "en l = EXTERN"
    and pre: "\<forall>x \<in> set pre. name x \<noteq> str" and post: "\<forall>x \<in> set post. name x \<noteq> str"
  shows "search_entery_and_update str t cl
           = (1, t\<lparr>labeltable := pre @ l\<lparr>en := ENTRY\<rparr> # post,
                   errortable := errortable t @
                     [\<lparr>error = '': error! invalid enternal label'', line = cl\<rparr>]\<rparr>)"
  using search_entery_loop_extern [OF l pre post, of "errortable t" cl]
    search_label_entry_marks [OF l(1) pre, of post 0 0]
  by (simp add: search_entery_and_update_def add_label_def tab)

text \<open>
  Claim C8, at the failing input. After \<open>.extern X\<close> the label table holds \<open>X\<close> marked
  \<open>EXTERN\<close>. \<open>.entry X\<close> then records the diagnostic, and since \<open>flag\<close> is still 0
  calls \<open>add_label\<close>, whose \<open>search_label\<close> overwrites the mark: \<open>X\<close> ends marked
  \<open>ENTRY\<close>, not \<open>EXTERN\<close>.
\<close>

theorem entry_of_extern_overwrites:
  "search_entery_and_update ''X'' (add_label allocated_tables ''X'' EXTERN 0 0) 1
     = (1, \<lparr>instable = instable allocated_tables, ic = 0, datatable = [],
            errortable = [\<lparr>error = '': error! invalid enternal label'', line = 1\<rparr>],
            labeltable = [\<lparr>name = ''X'', type = 0, index' = 0, en = ENTRY\<rparr>], extable = []\<rparr>)
   \<and> labeltable (add_label allocated_tables ''X'' EXTERN 0 0)
       = [\<lparr>name = ''X'', type = 0, index' = 0, en = EXTERN\<rparr>]"
  by (simp add: search_entery_and_update_def add_label_def allocated_tables_def EXTERN_def ENTRY_def
        INSTRUCTION_def DIRECTIVE_def)

subsection \<open>The base-4 encoder\<close>

lemma digit_char_inverse:
  "0 \<le> d \<Longrightarrow> d < 4 \<Longrightarrow> special_base4_digit (digit_to_char_special_base4 d) = d"
  by (auto simp: special_base4_digit_def digit_to_char_special_base4_def)

lemma digit_char_alphabet:
  "0 \<le> d \<Longrightarrow> d < 4 \<Longrightarrow> digit_to_char_special_base4 d \<in> special_base4_alphabet"
  by (auto simp: special_base4_alphabet_def digit_to_char_special_base4_def)

lemma special_base4_digit_range: "0 \<le> special_base4_digit c \<and> special_base4_digit c < 4"
  by (simp add: special_base4_digit_def)

lemma decode_snoc:
  "decode_special_base4 (xs @ [c]) = 4 * decode_special_base4 xs + special_base4_digit c"
  by (simp add: decode_special_base4_def)

lemma length_digits_of: "length (digits_of w n) = w"
  by (induction w arbitrary: n) simp_all

lemma digits_of_zero: "digits_of w 0 = replicate w (CHR ''a'')"
  by (induction w) (simp_all add: digit_to_char_special_base4_def replicate_append_same)

lemma digits_of_alphabet: "set (digits_of w n) \<subseteq> special_base4_alphabet"
  by (induction w arbitrary: n) (simp_all add: digit_char_alphabet)

lemma mod_four_step:
  fixes a b m :: int
  assumes "0 \<le> b" "b < 4" "0 \<le> m"
  shows "(4 * a + b) mod (4 * m) = 4 * (a mod m) + b"
proof -
  have "(4 * a + b) mod (4 * m) = 4 * ((4 * a + b) div 4 mod m) + (4 * a + b) mod 4"
    using assms(3) by (rule zmod_zmult2_eq)
  moreover have "(4 * a + b) div 4 = a" using assms by simp
  moreover have "(4 * a + b) mod 4 = b" using assms by simp
  ultimately show ?thesis by simp
qed

lemma decode_digits_of: "decode_special_base4 (digits_of w n) = n mod 4 ^ w"
proof (induction w arbitrary: n)
  case 0
  show ?case by (simp add: decode_special_base4_def)
next
  case (Suc w)
  have "n mod 4 ^ Suc w = (4 * (n div 4) + n mod 4) mod (4 * 4 ^ w)" by simp
  also have "\<dots> = 4 * ((n div 4) mod 4 ^ w) + n mod 4"
    by (rule mod_four_step) simp_all
  finally show ?case
    by (simp add: decode_snoc Suc.IH digit_char_inverse)
qed

lemma fill_digits_replicate:
  "0 \<le> n \<Longrightarrow> fill_digits i n (replicate i (CHR ''a'') @ t) = digits_of i n @ t"
proof (induction i arbitrary: n t)
  case 0
  show ?case by simp
next
  case (Suc i)
  show ?case
  proof (cases "n > 0")
    case True
    have upd: "(replicate (Suc i) (CHR ''a'') @ t)[i := c] = replicate i (CHR ''a'') @ (c # t)" for c
    proof -
      have "(replicate i (CHR ''a'') @ CHR ''a'' # t)[length (replicate i (CHR ''a'')) := c]
              = replicate i (CHR ''a'') @ c # t"
        by (rule list_update_length)
      moreover have "replicate (Suc i) (CHR ''a'') @ t = replicate i (CHR ''a'') @ CHR ''a'' # t"
        by (simp add: replicate_append_same)
      ultimately show ?thesis by simp
    qed
    have "0 \<le> n div 4" using Suc.prems by simp
    from Suc.IH [OF this] True show ?thesis
      by (simp only: fill_digits.simps upd digits_of.simps if_True append_assoc append.simps)
  next
    case False
    with Suc.prems have "n = 0" by simp
    then show ?thesis
      using digits_of_zero [of "Suc i"] by (simp del: digits_of.simps)
  qed
qed

lemma fill_digits_eq: "0 \<le> n \<Longrightarrow> fill_digits w n (replicate w (CHR ''a'')) = digits_of w n"
  using fill_digits_replicate [of n w "[]"] by simp


lemma decode_range: "0 \<le> decode_special_base4 s \<and> decode_special_base4 s < 4 ^ length s"
proof (induction s rule: rev_induct)
  case Nil
  show ?case by (simp add: decode_special_base4_def)
next
  case (snoc c s)
  from special_base4_digit_range [of c] snoc show ?case
    by (simp add: decode_snoc)
qed

lemma decode_invert:
  "decode_special_base4 (map (\<lambda>c. digit_to_char_special_base4 (3 - special_base4_digit c)) s)
     = 4 ^ length s - 1 - decode_special_base4 s"
proof (induction s rule: rev_induct)
  case Nil
  show ?case by (simp add: decode_special_base4_def)
next
  case (snoc c s)
  have "special_base4_digit (digit_to_char_special_base4 (3 - special_base4_digit c))
          = 3 - special_base4_digit c"
    using special_base4_digit_range [of c] by (simp add: digit_char_inverse)
  with snoc show ?case
    by (simp add: decode_snoc algebra_simps)
qed

lemma invert_alphabet:
  "set (map (\<lambda>c. digit_to_char_special_base4 (3 - special_base4_digit c)) s) \<subseteq> special_base4_alphabet"
proof -
  have "digit_to_char_special_base4 (3 - special_base4_digit c) \<in> special_base4_alphabet" for c
    using special_base4_digit_range [of c] by (simp add: digit_char_alphabet)
  then show ?thesis by auto
qed

lemma add_one_loop_append:
  assumes "0 \<le> c" "c \<le> 1" "set p \<subseteq> special_base4_alphabet"
  shows "\<exists>r. add_one_loop (length p) c (p @ q) = r @ q \<and> length r = length p
             \<and> set r \<subseteq> special_base4_alphabet
             \<and> decode_special_base4 r = (decode_special_base4 p + c) mod 4 ^ length p"
  using assms
proof (induction p arbitrary: c q rule: rev_induct)
  case Nil
  show ?case by (simp add: decode_special_base4_def)
next
  case (snoc x p)
  let ?n = "length p"
  show ?case
  proof (cases "c > 0")
    case False
    with snoc.prems have "c = 0" by simp
    moreover have "decode_special_base4 (p @ [x]) mod 4 ^ length (p @ [x]) = decode_special_base4 (p @ [x])"
      using decode_range [of "p @ [x]"] by simp
    ultimately show ?thesis using snoc.prems by simp
  next
    case True
    with snoc.prems have c1: "c = 1" by simp
    define d where "d = special_base4_digit x + 1"
    define y where "y = digit_to_char_special_base4 (d mod 4)"
    have drange: "0 \<le> d div 4" "d div 4 \<le> 1"
      using special_base4_digit_range [of x] unfolding d_def by presburger+
    have pal: "set p \<subseteq> special_base4_alphabet" using snoc.prems by simp
    from snoc.IH [OF drange pal, of "y # q"]
    obtain r where r: "add_one_loop ?n (d div 4) (p @ y # q) = r @ y # q"
      "length r = ?n" "set r \<subseteq> special_base4_alphabet"
      "decode_special_base4 r = (decode_special_base4 p + d div 4) mod 4 ^ ?n"
      by blast
    have step: "add_one_loop (length (p @ [x])) c ((p @ [x]) @ q) = add_one_loop ?n (d div 4) (p @ y # q)"
      using c1 by (simp add: d_def y_def Let_def nth_append)
    have ydig: "special_base4_digit y = d mod 4"
      by (simp add: y_def digit_char_inverse)
    have yal: "y \<in> special_base4_alphabet"
      by (simp add: y_def digit_char_alphabet)
    have "(decode_special_base4 (p @ [x]) + c) mod 4 ^ length (p @ [x])
            = (4 * (decode_special_base4 p + d div 4) + d mod 4) mod (4 * 4 ^ ?n)"
      using c1 by (simp add: decode_snoc d_def algebra_simps)
    also have "\<dots> = 4 * ((decode_special_base4 p + d div 4) mod 4 ^ ?n) + d mod 4"
      by (rule mod_four_step) simp_all
    finally have val: "(decode_special_base4 (p @ [x]) + c) mod 4 ^ length (p @ [x])
            = decode_special_base4 (r @ [y])"
      by (simp add: decode_snoc r(4) ydig)
    show ?thesis
    proof (intro exI conjI)
      show "add_one_loop (length (p @ [x])) c ((p @ [x]) @ q) = (r @ [y]) @ q"
        using step r(1) by simp
      show "length (r @ [y]) = length (p @ [x])" using r(2) by simp
      show "set (r @ [y]) \<subseteq> special_base4_alphabet" using r(3) yal by simp
      show "decode_special_base4 (r @ [y]) = (decode_special_base4 (p @ [x]) + c) mod 4 ^ length (p @ [x])"
        using val by simp
    qed
  qed
qed

lemma add_one_to_special_base4_props:
  assumes "set s \<subseteq> special_base4_alphabet"
  shows "length (add_one_to_special_base4 s (length s)) = length s"
    and "set (add_one_to_special_base4 s (length s)) \<subseteq> special_base4_alphabet"
    and "decode_special_base4 (add_one_to_special_base4 s (length s))
           = (decode_special_base4 s + 1) mod 4 ^ length s"
  using add_one_loop_append [of 1 s "[]"] assms
  by (auto simp: add_one_to_special_base4_def)

lemma abs_c_negative: "- (2 ^ 31) < num \<Longrightarrow> num < 0 \<Longrightarrow> abs_c num = \<bar>num\<bar>"
  by (simp add: abs_c_def wrap_int_def)

lemma fill_digits_nonpos: "n \<le> 0 \<Longrightarrow> fill_digits i n s = s"
  by (cases i) simp_all

lemma fill_digits_shape:
  "length (fill_digits w n (replicate w (CHR ''a''))) = w
   \<and> set (fill_digits w n (replicate w (CHR ''a''))) \<subseteq> special_base4_alphabet"
proof (cases "0 \<le> n")
  case True
  then show ?thesis by (simp add: fill_digits_eq length_digits_of digits_of_alphabet)
next
  case False
  then have "fill_digits w n (replicate w (CHR ''a'')) = replicate w (CHR ''a'')"
    by (simp add: fill_digits_nonpos)
  then show ?thesis by (auto simp: special_base4_alphabet_def)
qed

lemma encoder_shape:
  "length (int_to_special_base4 num w) = w \<and> set (int_to_special_base4 num w) \<subseteq> special_base4_alphabet"
proof (cases "num < 0")
  case False
  then show ?thesis
    by (simp add: int_to_special_base4_def fill_digits_eq length_digits_of digits_of_alphabet)
next
  case True
  let ?inv = "map (\<lambda>c. digit_to_char_special_base4 (3 - special_base4_digit c))
                (fill_digits w (abs_c num) (replicate w (CHR ''a'')))"
  have len: "length ?inv = w" using fill_digits_shape [of w "abs_c num"] by simp
  have al: "set ?inv \<subseteq> special_base4_alphabet" by (rule invert_alphabet)
  from add_one_to_special_base4_props(1,2) [OF al] len True show ?thesis
    by (simp add: int_to_special_base4_def)
qed

lemma encoder_value:
  assumes "- (2 ^ 31) < num"
  shows "decode_special_base4 (int_to_special_base4 num w) = num mod 4 ^ w"
proof (cases "num < 0")
  case False
  then show ?thesis
    by (simp add: int_to_special_base4_def fill_digits_eq decode_digits_of)
next
  case True
  let ?inv = "map (\<lambda>c. digit_to_char_special_base4 (3 - special_base4_digit c)) (digits_of w \<bar>num\<bar>)"
  have len: "length ?inv = w" by (simp add: length_digits_of)
  have al: "set ?inv \<subseteq> special_base4_alphabet" by (rule invert_alphabet)
  have "decode_special_base4 ?inv = 4 ^ w - 1 - \<bar>num\<bar> mod 4 ^ w"
    using decode_invert [of "digits_of w \<bar>num\<bar>"] by (simp add: length_digits_of decode_digits_of)
  with add_one_to_special_base4_props(3) [OF al] len
  have "decode_special_base4 (add_one_to_special_base4 ?inv w) = (4 ^ w - \<bar>num\<bar> mod 4 ^ w) mod 4 ^ w"
    by simp
  also have "\<dots> = (- \<bar>num\<bar>) mod 4 ^ w"
    by (metis minus_mod_self1 mod_diff_right_eq diff_0 mod_minus_eq)
  also have "\<dots> = num mod 4 ^ w" using True by simp
  finally show ?thesis using True abs_c_negative [OF assms True]
    by (simp add: int_to_special_base4_def fill_digits_eq)
qed

lemma digits_of_padding:
  "0 \<le> n \<Longrightarrow> n < 4 ^ k \<Longrightarrow> k \<le> w \<Longrightarrow> digits_of w n = replicate (w - k) (CHR ''a'') @ digits_of k n"
proof (induction w arbitrary: n k)
  case 0
  then show ?case by simp
next
  case (Suc w)
  show ?case
  proof (cases k)
    case 0
    with Suc.prems have "n = 0" by simp
    moreover have "digits_of (Suc w) 0 = replicate (Suc w) (CHR ''a'')" by (rule digits_of_zero)
    ultimately show ?thesis using 0
      by (simp only: digits_of.simps(1) append_Nil2 diff_zero)
  next
    case (Suc k')
    with Suc.prems have "0 \<le> n div 4" "n div 4 < 4 ^ k'" "k' \<le> w" by simp_all
    from Suc.IH [OF this] Suc show ?thesis by simp
  qed
qed

lemma digits_of_decode:
  "set s \<subseteq> special_base4_alphabet \<Longrightarrow> digits_of (length s) (decode_special_base4 s) = s"
proof (induction s rule: rev_induct)
  case Nil
  show ?case by simp
next
  case (snoc c xs)
  then have xs: "digits_of (length xs) (decode_special_base4 xs) = xs"
    and c: "c \<in> special_base4_alphabet" by simp_all
  have r: "0 \<le> special_base4_digit c" "special_base4_digit c < 4"
    using special_base4_digit_range [of c] by simp_all
  have inv: "digit_to_char_special_base4 (special_base4_digit c) = c"
    using c by (auto simp: special_base4_alphabet_def special_base4_digit_def
                  digit_to_char_special_base4_def)
  from r have "(4 * decode_special_base4 xs + special_base4_digit c) div 4 = decode_special_base4 xs"
    and "(4 * decode_special_base4 xs + special_base4_digit c) mod 4 = special_base4_digit c"
    by presburger+
  with xs inv show ?case by (simp add: decode_snoc)
qed

lemma encoder_digits:
  assumes "- (2 ^ 31) < num"
  shows "int_to_special_base4 num w = digits_of w (num mod 4 ^ w)"
proof -
  have "length (int_to_special_base4 num w) = w"
    and "set (int_to_special_base4 num w) \<subseteq> special_base4_alphabet"
    using encoder_shape by blast+
  with digits_of_decode [of "int_to_special_base4 num w"] show ?thesis
    by (simp add: encoder_value [OF assms])
qed

lemma digits_of_sign_padding:
  "4 ^ w - 4 ^ k \<le> m \<Longrightarrow> m < 4 ^ w \<Longrightarrow> k \<le> w
     \<Longrightarrow> take (w - k) (digits_of w m) = replicate (w - k) (CHR ''d'')"
proof (induction w arbitrary: m k)
  case 0
  then show ?case by simp
next
  case (Suc w)
  show ?case
  proof (cases k)
    case 0
    with Suc.prems have m: "m = 4 * 4 ^ w - 1" by simp
    then have d: "m div 4 = 4 ^ w - 1" "m mod 4 = 3" by presburger+
    from Suc.IH [of 0 "m div 4"] d have "take w (digits_of w (m div 4)) = replicate w (CHR ''d'')"
      by simp
    then have "digits_of w (m div 4) = replicate w (CHR ''d'')"
      by (simp add: length_digits_of)
    with 0 d show ?thesis
      by (simp add: length_digits_of digit_to_char_special_base4_def replicate_append_same)
  next
    case (Suc k')
    with Suc.prems have b: "4 * 4 ^ w - 4 * 4 ^ k' \<le> m" "m < 4 * 4 ^ w" "k' \<le> w" by simp_all
    then have "4 ^ w - 4 ^ k' \<le> m div 4" "m div 4 < 4 ^ w" by presburger+
    from Suc.IH [OF this b(3)] Suc show ?thesis
      by (simp add: length_digits_of)
  qed
qed

lemma encoder_sign_padding:
  assumes "num < 0" "- (4 ^ k) \<le> num" "k \<le> w" and m: "- (2 ^ 31) < num"
  shows "take (w - k) (int_to_special_base4 num w) = replicate (w - k) (CHR ''d'')"
proof -
  have le: "(4::int) ^ k \<le> 4 ^ w" using assms(3) by (simp add: power_increasing)
  from assms le have b: "4 ^ w - 4 ^ k \<le> num + 4 ^ w" "num + 4 ^ w < 4 ^ w"
    "0 \<le> num + 4 ^ w" by linarith+
  have "(num + 4 ^ w) mod 4 ^ w = num + 4 ^ w"
    by (rule mod_pos_pos_trivial [OF b(3) b(2)])
  then have "num mod 4 ^ w = num + 4 ^ w" by simp
  moreover note b(1,2)
  ultimately show ?thesis
    using digits_of_sign_padding [of w k "num + 4 ^ w"] assms(3) by (simp add: encoder_digits [OF m])
qed

text \<open>
  At \<open>INT_MIN\<close> the digit loop writes nothing: the buffer of \<open>a\<close> is inverted to \<open>d\<close>
  and the added one carries through, so the result is \<open>a\<close> in every position.
\<close>

lemma encoder_int_min: "int_to_special_base4 (- (2 ^ 31)) w = replicate w (CHR ''a'')"
proof -
  let ?inv = "map (\<lambda>c. digit_to_char_special_base4 (3 - special_base4_digit c)) (replicate w (CHR ''a''))"
  let ?r = "add_one_to_special_base4 ?inv w"
  have len: "length ?inv = w" by simp
  have al: "set ?inv \<subseteq> special_base4_alphabet" by (rule invert_alphabet)
  have z: "decode_special_base4 (replicate w (CHR ''a'')) = 0"
    using decode_digits_of [of w 0] by (simp add: digits_of_zero)
  have "decode_special_base4 ?inv = 4 ^ w - 1"
    using decode_invert [of "replicate w (CHR ''a'')"] z by simp
  with add_one_to_special_base4_props [OF al] len
  have r: "length ?r = w" "set ?r \<subseteq> special_base4_alphabet" "decode_special_base4 ?r = 0"
    by simp_all
  have "digits_of (length ?r) (decode_special_base4 ?r) = ?r"
    using r(2) by (rule digits_of_decode)
  then have e: "?r = replicate w (CHR ''a'')"
    by (simp only: r(1) r(3) digits_of_zero)
  have "abs_c (- (2 ^ 31)) \<le> 0" by (simp add: abs_c_def wrap_int_def)
  then have f: "fill_digits w (abs_c (- (2 ^ 31))) (replicate w (CHR ''a'')) = replicate w (CHR ''a'')"
    by (rule fill_digits_nonpos)
  have "int_to_special_base4 (- (2 ^ 31)) w
          = add_one_to_special_base4
              (map (\<lambda>c. digit_to_char_special_base4 (3 - special_base4_digit c))
                 (fill_digits w (abs_c (- (2 ^ 31))) (replicate w (CHR ''a'')))) w"
    by (simp add: int_to_special_base4_def)
  also have "\<dots> = ?r" by (simp only: f)
  also note e
  finally show ?thesis .
qed

text \<open>
  Claim C10. For every integer \<open>num\<close> and every width \<open>num_digits\<close> the encoder returns
  exactly \<open>num_digits\<close> characters, all among \<open>a, b, c, d\<close>. For a non-negative \<open>num\<close>
  the string read as a base-4 numeral is \<open>num mod 4 ^ num_digits\<close>: digits beyond the
  width are dropped without an error; and the positions left of the digits of \<open>num\<close>
  (any \<open>k\<close> digits suffice when \<open>num < 4 ^ k\<close>) hold the padding character \<open>a\<close>. For a
  negative \<open>num\<close> above \<open>INT_MIN\<close> the inversion turns the padding into \<open>d\<close>: the
  positions left of the \<open>k\<close> low digits hold \<open>d\<close> when \<open>- (4 ^ k) \<le> num\<close>. The claim as
  stated has the padding \<open>a\<close> for every integer; the counterexample is -1 at width 4,
  encoded \<open>dddd\<close>.
\<close>

theorem base4_width_and_truncation:
  "length (int_to_special_base4 num num_digits) = num_digits
   \<and> set (int_to_special_base4 num num_digits) \<subseteq> special_base4_alphabet
   \<and> (0 \<le> num \<longrightarrow>
        decode_special_base4 (int_to_special_base4 num num_digits) = num mod 4 ^ num_digits
        \<and> (\<forall>k \<le> num_digits. num < 4 ^ k \<longrightarrow>
              take (num_digits - k) (int_to_special_base4 num num_digits)
                = replicate (num_digits - k) (CHR ''a'')))
   \<and> (num < 0 \<and> - (2 ^ 31) < num \<longrightarrow>
        (\<forall>k \<le> num_digits. - (4 ^ k) \<le> num \<longrightarrow>
              take (num_digits - k) (int_to_special_base4 num num_digits)
                = replicate (num_digits - k) (CHR ''d'')))"
proof (intro conjI impI allI)
  show "length (int_to_special_base4 num num_digits) = num_digits"
    using encoder_shape by blast
  show "set (int_to_special_base4 num num_digits) \<subseteq> special_base4_alphabet"
    using encoder_shape by blast
next
  assume "0 \<le> num"
  then have "- (2 ^ 31) < num" by simp
  then show "decode_special_base4 (int_to_special_base4 num num_digits) = num mod 4 ^ num_digits"
    by (rule encoder_value)
next
  fix k assume "0 \<le> num" "k \<le> num_digits" "num < 4 ^ k"
  then show "take (num_digits - k) (int_to_special_base4 num num_digits)
                = replicate (num_digits - k) (CHR ''a'')"
    by (simp add: int_to_special_base4_def fill_digits_eq digits_of_padding [of num k num_digits])
next
  fix k assume "num < 0 \<and> - (2 ^ 31) < num" "k \<le> num_digits" "- (4 ^ k) \<le> num"
  then show "take (num_digits - k) (int_to_special_base4 num num_digits)
                = replicate (num_digits - k) (CHR ''d'')"
    by (simp add: encoder_sign_padding)
qed

theorem base4_width_and_truncation_witness:
  "int_to_special_base4 11 1 = ''d'' \<and> decode_special_base4 ''d'' = 11 mod 4 ^ 1
   \<and> take (4 - 2) (int_to_special_base4 7 4) = ''aa''
   \<and> take (4 - 1) (int_to_special_base4 (- 3) 4) = ''ddd''"
proof -
  have pad: "0 \<le> (7::int) \<Longrightarrow> (2::nat) \<le> 4 \<longrightarrow> (7::int) < 4 ^ 2 \<longrightarrow>
      take (4 - 2) (int_to_special_base4 7 4) = replicate (4 - 2) (CHR ''a'')"
    by (rule base4_width_and_truncation [of 7 4, THEN conjunct2, THEN conjunct2, THEN conjunct1,
          THEN mp, THEN conjunct2, THEN spec, of 2])
  have sgn: "(- 3 :: int) < 0 \<and> - (2 ^ 31) < (- 3 :: int) \<Longrightarrow>
      (1::nat) \<le> 4 \<longrightarrow> - (4 ^ 1) \<le> (- 3 :: int) \<longrightarrow>
      take (4 - 1) (int_to_special_base4 (- 3) 4) = replicate (4 - 1) (CHR ''d'')"
    by (rule base4_width_and_truncation [of "- 3" 4, THEN conjunct2, THEN conjunct2,
          THEN conjunct2, THEN mp, THEN spec, of 1])
  have val: "0 \<le> (11::int) \<Longrightarrow>
      decode_special_base4 (int_to_special_base4 11 1) = 11 mod 4 ^ 1"
    by (rule base4_width_and_truncation [of 11 1, THEN conjunct2, THEN conjunct2, THEN conjunct1,
          THEN mp, THEN conjunct1])
  have enc: "int_to_special_base4 11 1 = ''d''" by code_simp
  from pad val sgn enc show ?thesis by (simp add: numeral_eq_Suc)
qed

theorem base4_padding_counterexample:
  "int_to_special_base4 (- 1) 4 = ''dddd''
   \<and> CHR ''a'' \<notin> set (int_to_special_base4 (- 1) 4)"
  by code_simp

text \<open>
  Claim C5, amended. Decoding reproduces the encoded value in two ranges: read as a
  two's-complement number of the field's width for \<open>- (4 ^ w div 2) \<le> n < 4 ^ w div 2\<close>
  with \<open>n\<close> above \<open>INT_MIN\<close>, and read as an unsigned base-4 numeral for
  \<open>0 \<le> n < 4 ^ w\<close>. The claim as stated asks the two's-complement reading to reproduce
  every non-negative value below \<open>4 ^ w\<close> as well; the counterexample shows that 3 and -1
  have the same one-digit encoding \<open>d\<close>, which the two's-complement reading decodes
  to -1. \<open>INT_MIN\<close> is left out because \<open>abs\<close> overflows there (\<open>encoder_int_min\<close>).
\<close>

theorem base4_round_trip:
  "(- (4 ^ w div 2) \<le> n \<and> n < 4 ^ w div 2 \<and> - (2 ^ 31) < n \<longrightarrow>
      decode_twos_complement (int_to_special_base4 n w) = n)
   \<and> (0 \<le> n \<and> n < 4 ^ w \<longrightarrow> decode_special_base4 (int_to_special_base4 n w) = n)"
proof (intro conjI impI)
  assume r: "- (4 ^ w div 2) \<le> n \<and> n < 4 ^ w div 2 \<and> - (2 ^ 31) < n"
  then have m: "- (2 ^ 31) < n" by simp
  have w4: "(4::int) ^ w div 2 + 4 ^ w div 2 \<le> 4 ^ w" by simp
  have len: "length (int_to_special_base4 n w) = w" using encoder_shape by blast
  show "decode_twos_complement (int_to_special_base4 n w) = n"
  proof (cases "n < 0")
    case False
    with r w4 have "n mod 4 ^ w = n" by simp
    with r False show ?thesis
      by (simp add: decode_twos_complement_def Let_def encoder_value [OF m] len)
  next
    case True
    have "(n + 4 ^ w) mod 4 ^ w = n + 4 ^ w"
      by (rule mod_pos_pos_trivial) (use r w4 True in auto)
    then have "n mod 4 ^ w = n + 4 ^ w" by simp
    with r True w4 show ?thesis
      by (simp add: decode_twos_complement_def Let_def encoder_value [OF m] len)
  qed
next
  assume u: "0 \<le> n \<and> n < 4 ^ w"
  then have "- (2 ^ 31) < n" by simp
  from encoder_value [OF this, of w] u
  show "decode_special_base4 (int_to_special_base4 n w) = n"
    by simp
qed

theorem base4_round_trip_witness:
  "decode_twos_complement (int_to_special_base4 (-1) 4) = -1
   \<and> decode_special_base4 (int_to_special_base4 15 2) = 15"
  using base4_round_trip [of 4 "-1"] base4_round_trip [of 2 15] by simp

theorem base4_round_trip_counterexample:
  "(0::int) \<le> 3 \<and> (3::int) < 4 ^ 1
   \<and> int_to_special_base4 3 1 = int_to_special_base4 (-1) 1
   \<and> decode_twos_complement (int_to_special_base4 3 1) = -1"
  by code_simp

subsection \<open>External uses in the second pass\<close>

text \<open>
  What \<open>search_and_update\<close> does for a label that is found: for an \<open>EXTERN\<close> label the
  word at \<open>ic2\<close> becomes \<open>(0, EXTERNAL)\<close> and one use with the address
  \<open>ic2 + MEMORY_START\<close> is appended; for any other label the word becomes
  \<open>(index, RELOCATABLE)\<close> and no use is appended. No other word changes.
\<close>

lemma search_and_update_found:
  assumes "find (\<lambda>l. name l = str) (labeltable t) = Some l"
  shows "search_and_update (Some str) t ic2 cl =
           Inr (1, if en l = EXTERN
                   then t\<lparr>extable := extable t @ [\<lparr>ex_name = str, ex_index = ic2 + MEMORY_START\<rparr>],
                          instable := (instable t)(ic2 := Address 0 (word_of_int EXTERNAL))\<rparr>
                   else t\<lparr>instable := (instable t)
                            (ic2 := Address (word_of_int (index' l)) (word_of_int RELOCATABLE))\<rparr>)"
  using assms by (simp add: search_and_update_def add_extern_def)

lemma search_and_update_effect:
  assumes "search_and_update str t ic2 cl = Inr (r, t')"
  shows "(\<forall>i. i \<noteq> ic2 \<longrightarrow> instable t' i = instable t i)
         \<and> (extable t' = extable t
              \<or> (\<exists>n. extable t' = extable t @ [\<lparr>ex_name = n, ex_index = ic2 + MEMORY_START\<rparr>]
                    \<and> instable t' ic2 = Address 0 (word_of_int EXTERNAL)))"
  using assms
  by (auto simp: search_and_update_def add_extern_def add_error_def split: if_splits option.splits)

text \<open>
  Along instruction lines the external uses stay tagged: \<open>instruction_uptade_address\<close>
  writes only above the \<open>ic2\<close> it starts from, at two different places at most, so it
  keeps \<open>external_uses_tagged\<close>.
\<close>

lemma search_and_update_keeps_tagged:
  assumes "search_and_update str t p cl = Inr (r, t')" and "external_uses_tagged t ic2" and "ic2 < p"
  shows "external_uses_tagged t' p"
proof -
  from search_and_update_effect [OF assms(1)]
  have same: "\<And>i. i \<noteq> p \<Longrightarrow> instable t' i = instable t i"
    and ext: "extable t' = extable t
              \<or> (\<exists>n. extable t' = extable t @ [\<lparr>ex_name = n, ex_index = p + MEMORY_START\<rparr>]
                    \<and> instable t' p = Address 0 (word_of_int EXTERNAL))"
    by blast+
  have old: "ex_index e - MEMORY_START \<le> p
             \<and> instable t' (ex_index e - MEMORY_START) = Address 0 (word_of_int EXTERNAL)"
    if "e \<in> set (extable t)" for e
  proof -
    from that assms(2) have a: "ex_index e - MEMORY_START \<le> ic2"
      and b: "instable t (ex_index e - MEMORY_START) = Address 0 (word_of_int EXTERNAL)"
      by (auto simp: external_uses_tagged_def)
    from a assms(3) have ne: "ex_index e - MEMORY_START \<noteq> p" by simp
    from same [OF ne] b have "instable t' (ex_index e - MEMORY_START) = Address 0 (word_of_int EXTERNAL)"
      by simp
    moreover from a assms(3) have "ex_index e - MEMORY_START \<le> p" by simp
    ultimately show ?thesis by simp
  qed
  from ext show ?thesis
  proof
    assume "extable t' = extable t"
    with old show ?thesis by (simp add: external_uses_tagged_def)
  next
    assume "\<exists>n. extable t' = extable t @ [\<lparr>ex_name = n, ex_index = p + MEMORY_START\<rparr>]
                    \<and> instable t' p = Address 0 (word_of_int EXTERNAL)"
    with old show ?thesis by (auto simp: external_uses_tagged_def)
  qed
qed

lemma external_uses_tagged_mono:
  assumes "external_uses_tagged t a" and "a \<le> b"
  shows "external_uses_tagged t b"
  unfolding external_uses_tagged_def
proof
  fix e assume "e \<in> set (extable t)"
  with assms(1) have "ex_index e - MEMORY_START \<le> a"
    and "instable t (ex_index e - MEMORY_START) = Address 0 (word_of_int EXTERNAL)"
    by (simp_all add: external_uses_tagged_def)
  with assms(2) show "ex_index e - MEMORY_START \<le> b
      \<and> instable t (ex_index e - MEMORY_START) = Address 0 (word_of_int EXTERNAL)"
    by simp
qed

lemma second_operand_address_keeps_tagged:
  assumes run: "second_operand_address word2 t p cl = Inr (w', t', p')"
    and inv: "external_uses_tagged t ic2" and lt: "ic2 < p"
  shows "external_uses_tagged t' (p' - 1) \<and> p \<le> p'"
proof -
  let ?dm = "[CHR '' '', CHR ''['', CHR '']'', TAB]"
  have keep: "external_uses_tagged t (q - 1)" if "p \<le> q" for q
    by (rule external_uses_tagged_mono [OF inv]) (use lt that in simp)
  show ?thesis
  proof (cases "word2 \<noteq> None \<and> which_type_operand word2 = MATRIX")
    case True
    with run obtain r1 where su: "search_and_update (fst (strtok (the word2) ?dm)) t p cl = Inr (r1, t')"
      and p': "p' = p + 2"
      by (simp add: second_operand_address_def Let_def split: sum.splits prod.splits)
    from search_and_update_keeps_tagged [OF su inv lt] have "external_uses_tagged t' p" .
    then have "external_uses_tagged t' (p + 1)"
      by (rule external_uses_tagged_mono) simp
    with p' show ?thesis by (simp add: add.commute)
  next
    case nm: False
    show ?thesis
    proof (cases "word2 \<noteq> None \<and> which_type_operand word2 = DIRECT")
      case True
      with run nm obtain r1 where su: "search_and_update word2 t p cl = Inr (r1, t')"
        and p': "p' = p + 1"
        by (simp add: second_operand_address_def Let_def split: sum.splits prod.splits)
      from search_and_update_keeps_tagged [OF su inv lt] p' show ?thesis by simp
    next
      case nd: False
      with run nm have "t' = t" and "p' = p + 1 \<or> p' = p"
        by (simp_all add: second_operand_address_def Let_def split: if_splits)
      then show ?thesis using keep [of p'] by auto
    qed
  qed
qed

lemma instruction_uptade_address_keeps_tagged:
  assumes run: "instruction_uptade_address str t ic2 cl = Inr (r, t', ic2')"
    and inv: "external_uses_tagged t ic2"
  shows "external_uses_tagged t' ic2'"
proof -
  let ?dm = "[CHR '' '', CHR ''['', CHR '']'', TAB]"
  obtain w1 rest where s1: "strtok str [CHR '',''] = (w1, rest)" by force
  let ?word1 = "trim_right w1" and ?word2 = "trim_right (fst (strtok rest [CHR '','']))"
  have lt: "ic2 < ic2 + 1" by simp
  show ?thesis
  proof (cases "?word1 \<noteq> None \<and> (which_type_operand ?word1 = MATRIX \<or> which_type_operand ?word1 = DIRECT)")
    case True
    let ?first = "if which_type_operand ?word1 = MATRIX
                  then search_and_update (fst (strtok (the ?word1) ?dm)) t (ic2 + 1) cl
                  else search_and_update ?word1 t (ic2 + 1) cl"
    let ?step = "if which_type_operand ?word1 = MATRIX then 2 else (1::int)"
    from run s1 True obtain r1 t1 where f: "?first = Inr (r1, t1)"
      by (auto simp: instruction_uptade_address_def Let_def split: if_splits sum.splits)
    then have "external_uses_tagged t1 (ic2 + 1)"
      using search_and_update_keeps_tagged [OF _ inv lt] by (auto split: if_splits)
    moreover have "ic2 + 1 < ic2 + 1 + ?step" by simp
    moreover from run s1 True f obtain w2' p' where
      so: "second_operand_address ?word2 t1 (ic2 + 1 + ?step) cl = Inr (w2', t', p')"
      and fin: "ic2' = p' \<or> ic2' = p' - 1"
      by (auto simp: instruction_uptade_address_def Let_def split: if_splits sum.splits)
    ultimately have "external_uses_tagged t' (p' - 1)"
      using second_operand_address_keeps_tagged by blast
    with fin show ?thesis using external_uses_tagged_mono [of t' "p' - 1" p'] by auto
  next
    case False
    show ?thesis
    proof (cases "?word1 \<noteq> None")
      case True
      have "ic2 < ic2 + 1 + 1" by simp
      moreover from run s1 True False obtain w2' p' where
        so: "second_operand_address ?word2 t (ic2 + 1 + 1) cl = Inr (w2', t', p')"
        and fin: "ic2' = p' \<or> ic2' = p' - 1"
        by (auto simp: instruction_uptade_address_def Let_def split: if_splits sum.splits)
      ultimately have "external_uses_tagged t' (p' - 1)"
        using second_operand_address_keeps_tagged [OF _ inv] by blast
      with fin show ?thesis using external_uses_tagged_mono [of t' "p' - 1" p'] by auto
    next
      case n: False
      with run s1 have "t' = t" "ic2' = ic2 + 1 \<or> ic2' = ic2"
        by (auto simp: instruction_uptade_address_def Let_def which_type_operand_def NO_OPERAND_def
              REGISTER_def split: if_splits)
      with inv show ?thesis using external_uses_tagged_mono [of t ic2 "ic2 + 1"] by auto
    qed
  qed
qed

text \<open>
  Claim C3, at the failing input. The four lines \<open>.extern .dat\<close>, \<open>.entry .ma\<close>,
  \<open>.data 1\<close>, \<open>.mat [1][1] 7\<close> pass both passes without a diagnostic. In the second pass
  the line \<open>.data 1\<close> is a directive whose first word is no label, so \<open>.dat\<close> is looked
  up: it is \<open>EXTERN\<close>, the use \<open>(.dat, 100)\<close> is recorded and the word at \<open>ic2 = 0\<close> gets
  the tag \<open>EXTERNAL\<close>. The line \<open>.mat [1][1] 7\<close> looks \<open>.ma\<close> up and overwrites the same
  word with the tag \<open>RELOCATABLE\<close>. At the end the external use names address 100,
  the instruction image is empty (\<open>ic = 0\<close>), and the word at index 0 is not tagged
  \<open>EXTERNAL\<close>.
\<close>

theorem external_use_without_external_word:
  "(case passes [''.extern .dat'', ''.entry .ma'', ''.data 1'', ''.mat [1][1] 7''] allocated_tables [] of
      Inr (r, t) \<Rightarrow>
        errortable t = [] \<and> ic t = 0
        \<and> extable t = [\<lparr>ex_name = ''.dat'', ex_index = 100\<rparr>]
        \<and> instable t (100 - MEMORY_START) = Address 100 (word_of_int RELOCATABLE)
    | Inl f \<Rightarrow> False)"
  by code_simp

end
